theory Spec2Isabelle
  imports Complex_Main "HOL-Library.Word"
begin

unbundle bit_operations_syntax

section \<open>Motion triangle intersection (kernel/geom/motion\_triangle\_intersect.h)\<close>

text \<open>
  The header works on \<^verbatim>\<open>float\<close>, \<^verbatim>\<open>float3\<close>, \<^verbatim>\<open>Transform\<close>, \<^verbatim>\<open>KernelGlobals\<close> and
  \<^verbatim>\<open>ShaderData\<close>, and calls helpers that are declared in other headers of the kernel.
  The embedding keeps those types as type variables (\<open>'f\<close> for \<^verbatim>\<open>float\<close>, \<open>'v\<close> for
  \<^verbatim>\<open>float3\<close>, \<open>'tfm\<close> for \<^verbatim>\<open>Transform\<close>, \<open>'kg\<close> for \<^verbatim>\<open>KernelGlobals\<close>) and takes every
  helper, constant and preprocessor switch that the header uses but does not define as a
  field of the record \<open>kernel\<close> below. A theorem that quantifies over the record holds
  for every floating-point arithmetic and every scene.

  C \<^verbatim>\<open>int\<close> and \<^verbatim>\<open>uint\<close> are 32-bit words; signed comparisons read them with \<open>sint\<close>.
  Where the C++ has undefined behaviour (an index outside an array, an overflowing signed
  \<^verbatim>\<open>++\<close> or \<^verbatim>\<open>- 1\<close>, a remainder by zero) the model returns a \<open>fault\<close>.
\<close>

type_synonym cint = "32 word"
type_synonym cuint = "32 word"

subsection \<open>Data\<close>

text \<open>\<^verbatim>\<open>struct Intersection { float t, u, v; int prim; int object; int type; }\<close>.
  The fields carry the prefix \<open>hit_\<close> so that \<open>t\<close>, \<open>u\<close>, \<open>v\<close>, \<open>prim\<close> and
  \<open>object\<close> stay free for the local variables and parameters of the same name.\<close>

record 'f Intersection =
  hit_t :: 'f
  hit_u :: 'f
  hit_v :: 'f
  hit_prim :: cint
  hit_object :: cint
  hit_type :: cint

text \<open>\<^verbatim>\<open>struct LocalIntersection { int num_hits; Intersection hits[LOCAL_MAX_HITS];
  float3 Ng[LOCAL_MAX_HITS]; }\<close>. The two arrays are lists; an access outside a list is a
  fault of the model (undefined behaviour of the C++).\<close>

record ('f, 'v) LocalIntersection =
  num_hits :: cint
  hits :: "'f Intersection list"
  Ng :: "'v list"

text \<open>Of \<^verbatim>\<open>ShaderData\<close> the header reads \<^verbatim>\<open>object_flag\<close> only; the remaining fields, which
  the transform lookups read, are the extension of the record.\<close>

record ShaderData =
  object_flag :: cint

datatype fault = OutOfBounds | SignedOverflow | DivisionByZero

subsection \<open>What the header takes from the rest of the kernel\<close>

record ('f, 'v, 'tfm, 'kg, 'sd) kernel =
  \<comment> \<open>preprocessor switches: \<open>True\<close> when the macro is defined\<close>
  INTERSECTION_REFINE :: bool
  KERNEL_GPU_RAYTRACING :: bool
  VISIBILITY_FLAG :: bool
  \<comment> \<open>enumeration constants\<close>
  SD_OBJECT_TRANSFORM_APPLIED :: cint
  PRIMITIVE_MOTION_TRIANGLE :: cint
  \<comment> \<open>\<^verbatim>\<open>float\<close>: the literals \<^verbatim>\<open>0.0f\<close> and \<^verbatim>\<open>1.0f\<close>, \<^verbatim>\<open>==\<close>, \<^verbatim>\<open>>\<close>, \<^verbatim>\<open>*\<close>, \<^verbatim>\<open>/\<close>\<close>
  float_zero :: 'f
  float_one :: 'f
  float_eq :: "'f \<Rightarrow> 'f \<Rightarrow> bool"
  float_gt :: "'f \<Rightarrow> 'f \<Rightarrow> bool"
  float_mul :: "'f \<Rightarrow> 'f \<Rightarrow> 'f"
  float_div :: "'f \<Rightarrow> 'f \<Rightarrow> 'f"
  \<comment> \<open>\<^verbatim>\<open>float3\<close>: \<^verbatim>\<open>a + b\<close>, \<^verbatim>\<open>a - b\<close>, \<^verbatim>\<open>a * f\<close> and the vector helpers;
      \<^verbatim>\<open>normalize_len(a, &t)\<close> returns the unit vector and stores the length\<close>
  float3_add :: "'v \<Rightarrow> 'v \<Rightarrow> 'v"
  float3_sub :: "'v \<Rightarrow> 'v \<Rightarrow> 'v"
  float3_scale :: "'v \<Rightarrow> 'f \<Rightarrow> 'v"
  cross :: "'v \<Rightarrow> 'v \<Rightarrow> 'v"
  dot :: "'v \<Rightarrow> 'v \<Rightarrow> 'f"
  normalize :: "'v \<Rightarrow> 'v"
  normalize_len :: "'v \<Rightarrow> 'v \<times> 'f"
  \<comment> \<open>object transforms\<close>
  transform_point :: "'tfm \<Rightarrow> 'v \<Rightarrow> 'v"
  transform_direction :: "'tfm \<Rightarrow> 'v \<Rightarrow> 'v"
  object_get_transform :: "'kg \<Rightarrow> 'sd ShaderData_scheme \<Rightarrow> 'tfm"
  object_get_inverse_transform :: "'kg \<Rightarrow> 'sd ShaderData_scheme \<Rightarrow> 'tfm"
  \<comment> \<open>\<^verbatim>\<open>motion_triangle_vertices(kg, object, prim, time, verts)\<close> fills \<^verbatim>\<open>verts[0..2]\<close>\<close>
  motion_triangle_vertices :: "'kg \<Rightarrow> cint \<Rightarrow> cint \<Rightarrow> 'f \<Rightarrow> 'v \<times> 'v \<times> 'v"
  \<comment> \<open>\<^verbatim>\<open>ray_triangle_intersect(P, dir, tmax, v0, v1, v2, &u, &v, &t)\<close>:
      \<open>Some (u, v, t)\<close> when it returns true, \<open>None\<close> when it returns false\<close>
  ray_triangle_intersect ::
    "'v \<Rightarrow> 'v \<Rightarrow> 'f \<Rightarrow> 'v \<Rightarrow> 'v \<Rightarrow> 'v \<Rightarrow> ('f \<times> 'f \<times> 'f) option"
  \<comment> \<open>\<^verbatim>\<open>kernel_tex_fetch(__prim_visibility, prim_addr)\<close>\<close>
  prim_visibility :: "'kg \<Rightarrow> cint \<Rightarrow> cuint"
  \<comment> \<open>\<^verbatim>\<open>lcg_step_uint(&state)\<close>: the value drawn and the advanced state\<close>
  lcg_step_uint :: "cuint \<Rightarrow> cuint \<times> cuint"

subsection \<open>\<^verbatim>\<open>motion_triangle_refine\<close>\<close>

definition transform_applied :: "('f, 'v, 'tfm, 'kg, 'sd) kernel \<Rightarrow> 'sd ShaderData_scheme \<Rightarrow> bool" where
  "transform_applied K sd \<longleftrightarrow> object_flag sd AND SD_OBJECT_TRANSFORM_APPLIED K \<noteq> 0"

definition motion_triangle_refine ::
  "('f, 'v, 'tfm, 'kg, 'sd) kernel \<Rightarrow> 'kg \<Rightarrow> 'sd ShaderData_scheme \<Rightarrow> 'v \<Rightarrow> 'v \<Rightarrow> 'f
     \<Rightarrow> cint \<Rightarrow> cint \<Rightarrow> 'v \<times> 'v \<times> 'v \<Rightarrow> 'v" where
  "motion_triangle_refine K kg sd P D t isect_object isect_prim verts =
    (case verts of (verts0, verts1, verts2) \<Rightarrow>
     if INTERSECTION_REFINE K then
       if \<not> transform_applied K sd \<and> float_eq K t (float_zero K) then P
       else
         let (P, D, t) =
               (if \<not> transform_applied K sd then
                  let tfm = object_get_inverse_transform K kg sd;
                      P = transform_point K tfm P;
                      D = transform_direction K tfm (float3_scale K D t);
                      (D, t) = normalize_len K D
                  in (P, D, t)
                else (P, D, t));
             P = float3_add K P (float3_scale K D t);
             e1 = float3_sub K verts0 verts2;
             e2 = float3_sub K verts1 verts2;
             s1 = cross K D e2;
             invdivisor = float_div K (float_one K) (dot K s1 e1);
             d = float3_sub K P verts2;
             s2 = cross K d e1;
             rt = float_mul K (dot K e2 s2) invdivisor;
             P = float3_add K P (float3_scale K D rt)
         in if \<not> transform_applied K sd
            then transform_point K (object_get_transform K kg sd) P
            else P
     else float3_add K P (float3_scale K D t))"

subsection \<open>\<^verbatim>\<open>motion_triangle_refine_local\<close>\<close>

definition motion_triangle_refine_local ::
  "('f, 'v, 'tfm, 'kg, 'sd) kernel \<Rightarrow> 'kg \<Rightarrow> 'sd ShaderData_scheme \<Rightarrow> 'v \<Rightarrow> 'v \<Rightarrow> 'f
     \<Rightarrow> cint \<Rightarrow> cint \<Rightarrow> 'v \<times> 'v \<times> 'v \<Rightarrow> 'v" where
  "motion_triangle_refine_local K kg sd P D t isect_object isect_prim verts =
    (if KERNEL_GPU_RAYTRACING K then
       motion_triangle_refine K kg sd P D t isect_object isect_prim verts
     else
       case verts of (verts0, verts1, verts2) \<Rightarrow>
       if INTERSECTION_REFINE K then
         let (P, D) =
               (if \<not> transform_applied K sd then
                  let tfm = object_get_inverse_transform K kg sd;
                      P = transform_point K tfm P;
                      D = transform_direction K tfm D;
                      D = normalize K D
                  in (P, D)
                else (P, D));
             P = float3_add K P (float3_scale K D t);
             e1 = float3_sub K verts0 verts2;
             e2 = float3_sub K verts1 verts2;
             s1 = cross K D e2;
             invdivisor = float_div K (float_one K) (dot K s1 e1);
             d = float3_sub K P verts2;
             s2 = cross K d e1;
             rt = float_mul K (dot K e2 s2) invdivisor;
             P = float3_add K P (float3_scale K D rt)
         in if \<not> transform_applied K sd
            then transform_point K (object_get_transform K kg sd) P
            else P
       else float3_add K P (float3_scale K D t))"

subsection \<open>\<^verbatim>\<open>motion_triangle_intersect\<close>\<close>

text \<open>The function returns its \<^verbatim>\<open>bool\<close> together with the caller's record after the call.\<close>

definition motion_triangle_intersect ::
  "('f, 'v, 'tfm, 'kg, 'sd) kernel \<Rightarrow> 'kg \<Rightarrow> 'f Intersection \<Rightarrow> 'v \<Rightarrow> 'v \<Rightarrow> 'f \<Rightarrow> 'f
     \<Rightarrow> cuint \<Rightarrow> cint \<Rightarrow> cint \<Rightarrow> cint \<Rightarrow> bool \<times> 'f Intersection" where
  "motion_triangle_intersect K kg isect P dir tmax time visibility object prim prim_addr =
    (let (verts0, verts1, verts2) = motion_triangle_vertices K kg object prim time in
     case ray_triangle_intersect K P dir tmax verts0 verts1 verts2 of
       None \<Rightarrow> (False, isect)
     | Some (u, v, t) \<Rightarrow>
         if (if VISIBILITY_FLAG K then prim_visibility K kg prim_addr AND visibility \<noteq> 0 else True)
         then (True, isect\<lparr>hit_t := t, hit_u := u, hit_v := v, hit_prim := prim,
                            hit_object := object,
                            hit_type := PRIMITIVE_MOTION_TRIANGLE K\<rparr>)
         else (False, isect))"

subsection \<open>\<^verbatim>\<open>motion_triangle_intersect_local\<close>\<close>

text \<open>\<^verbatim>\<open>min(int, int)\<close> of the kernel's math header: \<^verbatim>\<open>(a < b) ? a : b\<close>.\<close>

definition min_int :: "cint \<Rightarrow> cint \<Rightarrow> cint" where
  "min_int a b = (if sint a < sint b then a else b)"

text \<open>The duplicate scan, lines 219-223:
  \<^verbatim>\<open>for (int i = n - 1; i >= 0; --i) if (hits[i].t == t) return false;\<close>
  The first argument counts the iterations left, so the slot read is one below it.
  \<open>Inr True\<close>: a slot with the same \<open>t\<close> was found.\<close>

fun duplicate_scan ::
  "('f \<Rightarrow> 'f \<Rightarrow> bool) \<Rightarrow> 'f Intersection list \<Rightarrow> 'f \<Rightarrow> nat \<Rightarrow> fault + bool" where
  "duplicate_scan eq hs t 0 = Inr False"
| "duplicate_scan eq hs t (Suc i) =
     (if length hs \<le> i then Inl OutOfBounds
      else if eq (hit_t (hs ! i)) t then Inr True
      else duplicate_scan eq hs t i)"

text \<open>The tail of the function, lines 250-262: the record and the geometric normal are
  stored in slot \<open>hit\<close>, and the function returns false.\<close>

definition record_intersection ::
  "('f, 'v, 'tfm, 'kg, 'sd) kernel \<Rightarrow> ('f, 'v) LocalIntersection \<Rightarrow> cint \<Rightarrow> 'f \<Rightarrow> 'f \<Rightarrow> 'f
     \<Rightarrow> cint \<Rightarrow> cint \<Rightarrow> 'v \<times> 'v \<times> 'v \<Rightarrow> fault + ('f, 'v) LocalIntersection" where
  "record_intersection K local_isect hit t u v prim object verts =
    (case verts of (verts0, verts1, verts2) \<Rightarrow>
     if sint hit < 0 \<or> int (length (hits local_isect)) \<le> sint hit
        \<or> int (length (Ng local_isect)) \<le> sint hit
     then Inl OutOfBounds
     else
       let isect = (hits local_isect ! nat (sint hit))
                     \<lparr>hit_t := t, hit_u := u, hit_v := v, hit_prim := prim,
                      hit_object := object,
                      hit_type := PRIMITIVE_MOTION_TRIANGLE K\<rparr>
       in Inr (local_isect
                 \<lparr>hits := (hits local_isect)[nat (sint hit) := isect],
                  Ng := (Ng local_isect)[nat (sint hit) :=
                          normalize K (cross K (float3_sub K verts1 verts0)
                                               (float3_sub K verts2 verts0))]\<rparr>))"

text \<open>The result is a fault, or the returned \<^verbatim>\<open>bool\<close> with the buffer and the random
  state after the call. \<open>lcg_state\<close> is \<open>None\<close> for a null pointer.\<close>

definition motion_triangle_intersect_local ::
  "('f, 'v, 'tfm, 'kg, 'sd) kernel \<Rightarrow> 'kg \<Rightarrow> ('f, 'v) LocalIntersection \<Rightarrow> 'v \<Rightarrow> 'v \<Rightarrow> 'f
     \<Rightarrow> cint \<Rightarrow> cint \<Rightarrow> cint \<Rightarrow> 'f \<Rightarrow> cuint option \<Rightarrow> cint
     \<Rightarrow> fault + (bool \<times> ('f, 'v) LocalIntersection \<times> cuint option)" where
  "motion_triangle_intersect_local K kg local_isect P dir time object prim prim_addr tmax
      lcg_state max_hits =
    (let (verts0, verts1, verts2) = motion_triangle_vertices K kg object prim time in
     case ray_triangle_intersect K P dir tmax verts0 verts1 verts2 of
       None \<Rightarrow> Inr (False, local_isect, lcg_state)
     | Some (u, v, t) \<Rightarrow>
         if max_hits = 0 then Inr (True, local_isect, lcg_state)
         else
           (case lcg_state of
              Some s \<Rightarrow>
                if sint (min_int max_hits (num_hits local_isect)) = - (2 ^ 31)
                then Inl SignedOverflow
                else
                  (case duplicate_scan (float_eq K) (hits local_isect) t
                          (nat (sint (min_int max_hits (num_hits local_isect) - 1) + 1)) of
                     Inl e \<Rightarrow> Inl e
                   | Inr True \<Rightarrow> Inr (False, local_isect, lcg_state)
                   | Inr False \<Rightarrow>
                       if sint (num_hits local_isect) = 2 ^ 31 - 1 then Inl SignedOverflow
                       else
                         let local_isect = local_isect\<lparr>num_hits := num_hits local_isect + 1\<rparr>
                         in if sint (num_hits local_isect) \<le> sint max_hits then
                              (case record_intersection K local_isect (num_hits local_isect - 1)
                                      t u v prim object (verts0, verts1, verts2) of
                                 Inl e \<Rightarrow> Inl e
                               | Inr local_isect \<Rightarrow> Inr (False, local_isect, Some s))
                            else if num_hits local_isect = 0 then Inl DivisionByZero
                            else
                              (case lcg_step_uint K s of (r, s) \<Rightarrow>
                                 let hit = r mod num_hits local_isect
                                 in if sint max_hits \<le> sint hit
                                    then Inr (False, local_isect, Some s)
                                    else
                                      (case record_intersection K local_isect hit
                                              t u v prim object (verts0, verts1, verts2) of
                                         Inl e \<Rightarrow> Inl e
                                       | Inr local_isect \<Rightarrow> Inr (False, local_isect, Some s))))
            | None \<Rightarrow>
                if num_hits local_isect \<noteq> 0 \<and> hits local_isect = [] then Inl OutOfBounds
                else if num_hits local_isect \<noteq> 0
                        \<and> float_gt K t (hit_t (hits local_isect ! 0))
                then Inr (False, local_isect, None)
                else
                  (case record_intersection K (local_isect\<lparr>num_hits := 1\<rparr>) 0
                          t u v prim object (verts0, verts1, verts2) of
                     Inl e \<Rightarrow> Inl e
                   | Inr local_isect \<Rightarrow> Inr (False, local_isect, None))))"

subsection \<open>The stored record and the stored normal\<close>

text \<open>The record that lines 252-257 leave in a slot, and the normal of line 260.\<close>

abbreviation motion_hit ::
  "('f, 'v, 'tfm, 'kg, 'sd) kernel \<Rightarrow> 'f \<Rightarrow> 'f \<Rightarrow> 'f \<Rightarrow> cint \<Rightarrow> cint \<Rightarrow> 'f Intersection" where
  "motion_hit K t u v prim object \<equiv>
     \<lparr>hit_t = t, hit_u = u, hit_v = v, hit_prim = prim, hit_object = object,
      hit_type = PRIMITIVE_MOTION_TRIANGLE K\<rparr>"

abbreviation geometric_normal :: "('f, 'v, 'tfm, 'kg, 'sd) kernel \<Rightarrow> 'v \<Rightarrow> 'v \<Rightarrow> 'v \<Rightarrow> 'v" where
  "geometric_normal K verts0 verts1 verts2 \<equiv>
     normalize K (cross K (float3_sub K verts1 verts0) (float3_sub K verts2 verts0))"

section \<open>A kernel with exact arithmetic\<close>

text \<open>
  A concrete value of the record \<open>kernel\<close>, on which the definitions can be evaluated:
  \<^verbatim>\<open>float\<close> is \<open>real\<close> with exact arithmetic, \<^verbatim>\<open>float3\<close> a triple, \<^verbatim>\<open>Transform\<close> three
  rows of a \<^verbatim>\<open>float3\<close> and a translation. The vector helpers are the usual ones. The
  ray-triangle test is the two-edge determinant solve with \<open>e1 = v0 - v2\<close> and
  \<open>e2 = v1 - v2\<close>; it accepts when the divisor is not zero, \<open>(u, v)\<close> lies in the
  simplex and \<open>0 < t < tmax\<close>. The scene stores two key frames per primitive, and the
  vertices at a time are interpolated linearly. The random stream is the linear
  congruential generator \<open>1103515245 * s + 12345\<close>. The runs below use small integers
  and quarters only, on which single-precision arithmetic is exact as well.
\<close>

type_synonym real3 = "real \<times> real \<times> real"
type_synonym real_transform = "(real3 \<times> real) \<times> (real3 \<times> real) \<times> (real3 \<times> real)"

fun real3_add :: "real3 \<Rightarrow> real3 \<Rightarrow> real3" where
  "real3_add (ax, ay, az) (bx, by, bz) = (ax + bx, ay + by, az + bz)"

fun real3_sub :: "real3 \<Rightarrow> real3 \<Rightarrow> real3" where
  "real3_sub (ax, ay, az) (bx, by, bz) = (ax - bx, ay - by, az - bz)"

fun real3_scale :: "real3 \<Rightarrow> real \<Rightarrow> real3" where
  "real3_scale (ax, ay, az) f = (ax * f, ay * f, az * f)"

fun real3_cross :: "real3 \<Rightarrow> real3 \<Rightarrow> real3" where
  "real3_cross (ax, ay, az) (bx, by, bz) =
     (ay * bz - az * by, az * bx - ax * bz, ax * by - ay * bx)"

fun real3_dot :: "real3 \<Rightarrow> real3 \<Rightarrow> real" where
  "real3_dot (ax, ay, az) (bx, by, bz) = ax * bx + ay * by + az * bz"

definition real3_len :: "real3 \<Rightarrow> real" where
  "real3_len a = sqrt (real3_dot a a)"

definition real3_normalize :: "real3 \<Rightarrow> real3" where
  "real3_normalize a = real3_scale a (1 / real3_len a)"

definition real3_normalize_len :: "real3 \<Rightarrow> real3 \<times> real" where
  "real3_normalize_len a = (real3_scale a (1 / real3_len a), real3_len a)"

fun real_transform_point :: "real_transform \<Rightarrow> real3 \<Rightarrow> real3" where
  "real_transform_point ((rx, wx), (ry, wy), (rz, wz)) a =
     (real3_dot rx a + wx, real3_dot ry a + wy, real3_dot rz a + wz)"

fun real_transform_direction :: "real_transform \<Rightarrow> real3 \<Rightarrow> real3" where
  "real_transform_direction ((rx, wx), (ry, wy), (rz, wz)) a =
     (real3_dot rx a, real3_dot ry a, real3_dot rz a)"

definition real_ray_triangle_intersect ::
  "real3 \<Rightarrow> real3 \<Rightarrow> real \<Rightarrow> real3 \<Rightarrow> real3 \<Rightarrow> real3 \<Rightarrow> (real \<times> real \<times> real) option" where
  "real_ray_triangle_intersect P dir tmax v0 v1 v2 =
    (let e1 = real3_sub v0 v2;
         e2 = real3_sub v1 v2;
         s1 = real3_cross dir e2;
         divisor = real3_dot s1 e1
     in if divisor = 0 then None
        else
          let invdivisor = 1 / divisor;
              d = real3_sub P v2;
              u = real3_dot d s1 * invdivisor
          in if u < 0 \<or> 1 < u then None
             else
               let s2 = real3_cross d e1;
                   v = real3_dot dir s2 * invdivisor
               in if v < 0 \<or> 1 < u + v then None
                  else
                    let t = real3_dot e2 s2 * invdivisor
                    in if t \<le> 0 \<or> tmax \<le> t then None else Some (u, v, t))"

record scene =
  key0 :: "cint \<Rightarrow> cint \<Rightarrow> real3 \<times> real3 \<times> real3"
  key1 :: "cint \<Rightarrow> cint \<Rightarrow> real3 \<times> real3 \<times> real3"
  visibility_flags :: "cint \<Rightarrow> cuint"
  object_tfm :: real_transform
  object_itfm :: real_transform

definition real3_mix :: "real3 \<Rightarrow> real3 \<Rightarrow> real \<Rightarrow> real3" where
  "real3_mix a b time = real3_add (real3_scale a (1 - time)) (real3_scale b time)"

definition scene_vertices :: "scene \<Rightarrow> cint \<Rightarrow> cint \<Rightarrow> real \<Rightarrow> real3 \<times> real3 \<times> real3" where
  "scene_vertices kg object prim time =
     (case (key0 kg object prim, key1 kg object prim) of
        ((a0, a1, a2), (b0, b1, b2)) \<Rightarrow>
          (real3_mix a0 b0 time, real3_mix a1 b1 time, real3_mix a2 b2 time))"

definition lcg_step :: "cuint \<Rightarrow> cuint \<times> cuint" where
  "lcg_step s = (1103515245 * s + 12345, 1103515245 * s + 12345)"

definition exact_kernel :: "(real, real3, real_transform, scene, unit) kernel" where
  "exact_kernel =
     \<lparr>INTERSECTION_REFINE = True, KERNEL_GPU_RAYTRACING = False, VISIBILITY_FLAG = True,
      SD_OBJECT_TRANSFORM_APPLIED = 16, PRIMITIVE_MOTION_TRIANGLE = 2,
      float_zero = 0, float_one = 1,
      float_eq = (=), float_gt = (\<lambda>a b. b < a),
      float_mul = (*), float_div = (/),
      float3_add = real3_add, float3_sub = real3_sub, float3_scale = real3_scale,
      cross = real3_cross, dot = real3_dot,
      normalize = real3_normalize, normalize_len = real3_normalize_len,
      transform_point = real_transform_point, transform_direction = real_transform_direction,
      object_get_transform = (\<lambda>kg sd. object_tfm kg),
      object_get_inverse_transform = (\<lambda>kg sd. object_itfm kg),
      motion_triangle_vertices = scene_vertices,
      ray_triangle_intersect = real_ray_triangle_intersect,
      prim_visibility = visibility_flags,
      lcg_step_uint = lcg_step\<rparr>"

text \<open>A stack of triangles: primitive \<open>k\<close> lies in the plane \<open>z = k\<close> at time 0 and in
  \<open>z = k + 1\<close> at time 1. The primitive at address 0 is invisible to every ray; the
  object transform is the identity.\<close>

definition stack :: scene where
  "stack =
     \<lparr>key0 = (\<lambda>object prim.
               ((1, 0, real_of_int (sint prim)),
                (0, 1, real_of_int (sint prim)),
                (0, 0, real_of_int (sint prim)))),
      key1 = (\<lambda>object prim.
               ((1, 0, real_of_int (sint prim) + 1),
                (0, 1, real_of_int (sint prim) + 1),
                (0, 0, real_of_int (sint prim) + 1))),
      visibility_flags = (\<lambda>prim_addr. if prim_addr = 0 then 0 else 3),
      object_tfm = (((1, 0, 0), 0), ((0, 1, 0), 0), ((0, 0, 1), 0)),
      object_itfm = (((1, 0, 0), 0), ((0, 1, 0), 0), ((0, 0, 1), 0))\<rparr>"

text \<open>The same kernel with a random stream whose every draw is 0.\<close>

definition zero_draw_kernel :: "(real, real3, real_transform, scene, unit) kernel" where
  "zero_draw_kernel = exact_kernel\<lparr>lcg_step_uint := (\<lambda>s. (0, s + 1))\<rparr>"

lemmas exact_kernel_simps =
  exact_kernel_def stack_def scene_vertices_def real3_mix_def real_ray_triangle_intersect_def
  real3_normalize_def real3_len_def lcg_step_def Let_def

section \<open>Auxiliary facts\<close>

subsection \<open>Signed reading of 32-bit words\<close>

lemma sint_succ:
  fixes n :: cint
  assumes "sint n \<noteq> 2 ^ 31 - 1"
  shows "sint (n + 1) = sint n + 1"
  using assms sint_lt[of n] sint_ge[of n]
  by (simp add: sint_word_ariths signed_take_bit_int_eq_self)

lemma sint_pred:
  fixes n :: cint
  assumes "0 \<le> sint n"
  shows "sint (n - 1) = sint n - 1"
  using assms sint_lt[of n]
  by (simp add: sint_word_ariths signed_take_bit_int_eq_self)

lemma uint_small_sint:
  fixes c :: cuint
  assumes "uint c < 2 ^ 31"
  shows "sint c = uint c"
proof -
  have "- (2 ^ 31) \<le> uint c" by (rule order_trans[of _ 0]) simp_all
  then have "signed_take_bit 31 (uint c) = uint c"
    using assms by (intro signed_take_bit_int_eq_self) simp_all
  then show ?thesis by (simp add: sint_uint)
qed

lemma sint_nonneg_uint:
  fixes c :: cuint
  assumes "0 \<le> sint c"
  shows "sint c = uint c"
proof -
  have "uint c = take_bit 32 (sint c)" by (simp add: uint_sint)
  also have "\<dots> = sint c" using assms sint_lt[of c] by (simp add: take_bit_int_eq_self)
  finally show ?thesis by simp
qed

lemma sint_mod_bounds:
  fixes r c :: cuint
  assumes "0 < sint c"
  shows "0 \<le> sint (r mod c) \<and> sint (r mod c) < sint c"
proof -
  have c: "sint c = uint c" using assms by (simp add: sint_nonneg_uint)
  have "uint c < 2 ^ 31" using sint_lt[of c] c by simp
  moreover have m: "uint (r mod c) < uint c" using assms c by (simp add: uint_mod)
  ultimately have "uint (r mod c) < 2 ^ 31" by simp
  then have "sint (r mod c) = uint (r mod c)" by (rule uint_small_sint)
  then show ?thesis using m c by simp
qed

lemma duplicate_scan_in_range:
  "n \<le> length hs \<Longrightarrow> duplicate_scan eq hs t n = Inr (\<exists>i<n. eq (hit_t (hs ! i)) t)"
proof (induction n)
  case 0
  then show ?case by simp
next
  case (Suc n)
  then show ?case by (auto simp: less_Suc_eq)
qed

lemma scan_count:
  assumes "0 < sint max_hits" "0 \<le> sint n"
  shows "nat (sint (min_int max_hits n - 1) + 1) = min (nat (sint max_hits)) (nat (sint n))"
proof -
  have "0 \<le> sint (min_int max_hits n)" using assms by (simp add: min_int_def)
  then have "sint (min_int max_hits n - 1) + 1 = sint (min_int max_hits n)"
    by (simp add: sint_pred)
  then show ?thesis using assms by (auto simp: min_int_def)
qed

lemma overwrite_all_fields:
  fixes r :: "'f Intersection"
  shows "r\<lparr>hit_t := t, hit_u := u, hit_v := v, hit_prim := prim, hit_object := object,
           hit_type := ty\<rparr> =
         \<lparr>hit_t = t, hit_u = u, hit_v = v, hit_prim = prim, hit_object = object,
          hit_type = ty\<rparr>"
  by (cases r) simp

lemma record_intersection_in_range:
  assumes "0 \<le> sint hit" "sint hit < int (length (hits li))" "sint hit < int (length (Ng li))"
  shows "record_intersection K li hit t u v prim object (verts0, verts1, verts2) =
         Inr (li\<lparr>hits := (hits li)[nat (sint hit) := motion_hit K t u v prim object],
                 Ng := (Ng li)[nat (sint hit) := geometric_normal K verts0 verts1 verts2]\<rparr>)"
  using assms by (simp add: record_intersection_def overwrite_all_fields)


subsection \<open>Evaluation on numerals\<close>

lemma duplicate_scan_numeral:
  "duplicate_scan eq hs t (numeral k) = duplicate_scan eq hs t (Suc (pred_numeral k))"
  by (simp only: numeral_eq_Suc)

lemma list_update_0_1_0:
  "xs[0 := x, Suc 0 := y, 0 := z] = xs[0 := z, Suc 0 := y]"
  by (cases xs) simp_all

lemma zero_draw_kernel_fields:
  "motion_triangle_vertices zero_draw_kernel = scene_vertices"
  "ray_triangle_intersect zero_draw_kernel = real_ray_triangle_intersect"
  "float_eq zero_draw_kernel = (=)"
  "lcg_step_uint zero_draw_kernel = (\<lambda>s. (0, s + 1))"
  "normalize zero_draw_kernel = real3_normalize"
  "cross zero_draw_kernel = real3_cross"
  "float3_sub zero_draw_kernel = real3_sub"
  "PRIMITIVE_MOTION_TRIANGLE zero_draw_kernel = 2"
  by (simp_all add: zero_draw_kernel_def exact_kernel_def)

subsection \<open>The local intersector, branch by branch\<close>

text \<open>Reservoir mode, no stored slot has the candidate's distance: the three ways on.\<close>

lemma local_reservoir_no_duplicate:
  assumes verts: "motion_triangle_vertices K kg object prim time = (verts0, verts1, verts2)"
      and accept: "ray_triangle_intersect K P dir tmax verts0 verts1 verts2 = Some (u, v, t)"
      and pos: "0 < sint max_hits"
      and lo: "0 \<le> sint (num_hits li)"
      and hi: "sint (num_hits li) < 2 ^ 31 - 1"
      and cap_hits: "sint max_hits \<le> int (length (hits li))"
      and cap_Ng: "sint max_hits \<le> int (length (Ng li))"
      and nodup: "\<forall>i < min (nat (sint max_hits)) (nat (sint (num_hits li))).
                    \<not> float_eq K (hit_t (hits li ! i)) t"
  shows "motion_triangle_intersect_local K kg li P dir time object prim prim_addr tmax
           (Some s) max_hits =
         (if sint (num_hits li) + 1 \<le> sint max_hits then
            Inr (False,
                 li\<lparr>num_hits := num_hits li + 1,
                    hits := (hits li)[nat (sint (num_hits li)) := motion_hit K t u v prim object],
                    Ng := (Ng li)[nat (sint (num_hits li)) :=
                            geometric_normal K verts0 verts1 verts2]\<rparr>,
                 Some s)
          else if sint max_hits \<le> sint (fst (lcg_step_uint K s) mod (num_hits li + 1)) then
            Inr (False, li\<lparr>num_hits := num_hits li + 1\<rparr>, Some (snd (lcg_step_uint K s)))
          else
            Inr (False,
                 li\<lparr>num_hits := num_hits li + 1,
                    hits := (hits li)[nat (sint (fst (lcg_step_uint K s) mod (num_hits li + 1))) :=
                              motion_hit K t u v prim object],
                    Ng := (Ng li)[nat (sint (fst (lcg_step_uint K s) mod (num_hits li + 1))) :=
                            geometric_normal K verts0 verts1 verts2]\<rparr>,
                 Some (snd (lcg_step_uint K s))))"
proof -
  let ?n = "min (nat (sint max_hits)) (nat (sint (num_hits li)))"
  let ?c = "num_hits li + 1"
  let ?li = "li\<lparr>num_hits := ?c\<rparr>"
  have nz: "max_hits \<noteq> 0" using pos by auto
  have cnt: "nat (sint (min_int max_hits (num_hits li) - 1) + 1) = ?n"
    using pos lo by (rule scan_count)
  have "?n \<le> length (hits li)" using cap_hits pos by linarith
  then have scan: "duplicate_scan (float_eq K) (hits li) t ?n = Inr False"
    using nodup by (simp add: duplicate_scan_in_range)
  have succ: "sint ?c = sint (num_hits li) + 1" using hi by (simp add: sint_succ)
  have cz: "?c \<noteq> 0" using succ lo by auto
  have pred: "?c - 1 = num_hits li" by simp
  have ovf: "sint (num_hits li) \<noteq> 2 ^ 31 - 1" using hi by simp
  have unf: "sint (min_int max_hits (num_hits li)) \<noteq> - (2 ^ 31)"
    using pos lo by (simp add: min_int_def)
  have unfold:
    "motion_triangle_intersect_local K kg li P dir time object prim prim_addr tmax
       (Some s) max_hits =
     (if sint ?c \<le> sint max_hits then
        (case record_intersection K ?li (?c - 1) t u v prim object (verts0, verts1, verts2) of
           Inl e \<Rightarrow> Inl e
         | Inr local_isect \<Rightarrow> Inr (False, local_isect, Some s))
      else if sint max_hits \<le> sint (fst (lcg_step_uint K s) mod ?c) then
        Inr (False, ?li, Some (snd (lcg_step_uint K s)))
      else
        (case record_intersection K ?li (fst (lcg_step_uint K s) mod ?c) t u v prim object
                (verts0, verts1, verts2) of
           Inl e \<Rightarrow> Inl e
         | Inr local_isect \<Rightarrow> Inr (False, local_isect, Some (snd (lcg_step_uint K s)))))"
    unfolding motion_triangle_intersect_local_def
    apply (simp only: verts accept Let_def prod.case option.case nz unf if_False cnt scan
                      sum.case bool.case ovf)
    apply (simp add: cz case_prod_beta)
    done
  show ?thesis
  proof (cases "sint (num_hits li) + 1 \<le> sint max_hits")
    case True
    have "record_intersection K ?li (num_hits li) t u v prim object (verts0, verts1, verts2) =
          Inr (?li\<lparr>hits := (hits ?li)[nat (sint (num_hits li)) := motion_hit K t u v prim object],
                   Ng := (Ng ?li)[nat (sint (num_hits li)) :=
                            geometric_normal K verts0 verts1 verts2]\<rparr>)"
      using True lo cap_hits cap_Ng by (intro record_intersection_in_range) simp_all
    then show ?thesis using True by (simp add: unfold succ)
  next
    case False
    let ?h = "fst (lcg_step_uint K s) mod ?c"
    have pc: "0 < sint ?c" using succ lo by simp
    have hb: "0 \<le> sint ?h" using sint_mod_bounds [OF pc] by simp
    show ?thesis
    proof (cases "sint max_hits \<le> sint ?h")
      case True
      then show ?thesis using False by (simp add: unfold succ)
    next
      case nd: False
      have "record_intersection K ?li ?h t u v prim object (verts0, verts1, verts2) =
            Inr (?li\<lparr>hits := (hits ?li)[nat (sint ?h) := motion_hit K t u v prim object],
                     Ng := (Ng ?li)[nat (sint ?h) := geometric_normal K verts0 verts1 verts2]\<rparr>)"
        using nd hb cap_hits cap_Ng by (intro record_intersection_in_range) simp_all
      then show ?thesis using False nd by (simp add: unfold succ)
    qed
  qed
qed

text \<open>Reservoir mode, a scanned slot has the candidate's distance.\<close>

lemma local_reservoir_duplicate:
  assumes verts: "motion_triangle_vertices K kg object prim time = (verts0, verts1, verts2)"
      and accept: "ray_triangle_intersect K P dir tmax verts0 verts1 verts2 = Some (u, v, t)"
      and pos: "0 < sint max_hits"
      and cap_hits: "sint max_hits \<le> int (length (hits li))"
      and idx: "i < min (nat (sint max_hits)) (nat (sint (num_hits li)))"
      and dup: "float_eq K (hit_t (hits li ! i)) t"
  shows "motion_triangle_intersect_local K kg li P dir time object prim prim_addr tmax
           (Some s) max_hits = Inr (False, li, Some s)"
proof -
  let ?n = "min (nat (sint max_hits)) (nat (sint (num_hits li)))"
  have nz: "max_hits \<noteq> 0" using pos by auto
  have lo: "0 \<le> sint (num_hits li)" using idx by linarith
  have unf: "sint (min_int max_hits (num_hits li)) \<noteq> - (2 ^ 31)"
    using pos lo by (simp add: min_int_def)
  have cnt: "nat (sint (min_int max_hits (num_hits li) - 1) + 1) = ?n"
    using pos lo by (rule scan_count)
  have "?n \<le> length (hits li)" using cap_hits pos by linarith
  then have "duplicate_scan (float_eq K) (hits li) t ?n = Inr (\<exists>i<?n. float_eq K (hit_t (hits li ! i)) t)"
    by (rule duplicate_scan_in_range)
  moreover have "\<exists>i<?n. float_eq K (hit_t (hits li ! i)) t" using idx dup by blast
  ultimately have scan: "duplicate_scan (float_eq K) (hits li) t ?n = Inr True" by simp
  show ?thesis
    unfolding motion_triangle_intersect_local_def
    by (simp only: verts accept Let_def prod.case option.case nz unf if_False cnt scan
                   sum.case bool.case)
qed

text \<open>Closest-only mode.\<close>

lemma local_closest_only:
  assumes verts: "motion_triangle_vertices K kg object prim time = (verts0, verts1, verts2)"
      and accept: "ray_triangle_intersect K P dir tmax verts0 verts1 verts2 = Some (u, v, t)"
      and nz: "max_hits \<noteq> 0"
      and slot_hits: "hits li \<noteq> []"
      and slot_Ng: "Ng li \<noteq> []"
  shows "motion_triangle_intersect_local K kg li P dir time object prim prim_addr tmax
           None max_hits =
         (if num_hits li \<noteq> 0 \<and> float_gt K t (hit_t (hits li ! 0))
          then Inr (False, li, None)
          else Inr (False,
                    li\<lparr>num_hits := 1,
                       hits := (hits li)[0 := motion_hit K t u v prim object],
                       Ng := (Ng li)[0 := geometric_normal K verts0 verts1 verts2]\<rparr>,
                    None))"
proof -
  let ?li = "li\<lparr>num_hits := 1\<rparr>"
  have "record_intersection K ?li 0 t u v prim object (verts0, verts1, verts2) =
        Inr (?li\<lparr>hits := (hits ?li)[nat (sint (0 :: cint)) := motion_hit K t u v prim object],
                 Ng := (Ng ?li)[nat (sint (0 :: cint)) :=
                          geometric_normal K verts0 verts1 verts2]\<rparr>)"
    using slot_hits slot_Ng by (intro record_intersection_in_range) simp_all
  then have rec: "record_intersection K ?li 0 t u v prim object (verts0, verts1, verts2) =
        Inr (li\<lparr>num_hits := 1, hits := (hits li)[0 := motion_hit K t u v prim object],
                 Ng := (Ng li)[0 := geometric_normal K verts0 verts1 verts2]\<rparr>)"
    by simp
  show ?thesis
    unfolding motion_triangle_intersect_local_def
    apply (simp only: verts accept Let_def prod.case option.case nz if_False rec sum.case)
    apply (simp add: slot_hits)
    done
qed

text \<open>Whenever the function returns, it returns true only from line 213.\<close>

lemma local_result_flag:
  assumes verts: "motion_triangle_vertices K kg object prim time = (verts0, verts1, verts2)"
      and res: "motion_triangle_intersect_local K kg li P dir time object prim prim_addr tmax
                  lcg_state max_hits = Inr (b, li', s')"
  shows "b \<longleftrightarrow> ray_triangle_intersect K P dir tmax verts0 verts1 verts2 \<noteq> None \<and> max_hits = 0"
proof (cases "ray_triangle_intersect K P dir tmax verts0 verts1 verts2")
  case None
  then show ?thesis using res verts by (simp add: motion_triangle_intersect_local_def)
next
  case (Some uvt)
  obtain u v t where uvt: "uvt = (u, v, t)" by (cases uvt) auto
  note accept = Some [unfolded uvt]
  show ?thesis
  proof (cases "max_hits = 0")
    case True
    then show ?thesis using res verts accept by (simp add: motion_triangle_intersect_local_def)
  next
    case nz: False
    show ?thesis
    proof (cases lcg_state)
      case None
      have "\<not> b"
        using res unfolding motion_triangle_intersect_local_def None
        by (simp only: verts accept Let_def prod.case option.case nz if_False)
           (auto split: if_splits sum.splits)
      then show ?thesis using nz by simp
    next
      case (Some s)
      have "\<not> b"
        using res unfolding motion_triangle_intersect_local_def Some
        by (simp only: verts accept Let_def prod.case option.case nz if_False)
           (auto split: if_splits sum.splits bool.splits prod.splits)
      then show ?thesis using nz by simp
    qed
  qed
qed

section \<open>The refiners\<close>

text \<open>
  C8. When \<^verbatim>\<open>__KERNEL_GPU_RAYTRACING__\<close> is defined (the acceleration structure reports
  world-space distances), \<open>motion_triangle_refine_local\<close> returns, for every input, what
  \<open>motion_triangle_refine\<close> returns on the same arguments.
\<close>

theorem refine_local_gpu_raytracing_passthrough:
  assumes "KERNEL_GPU_RAYTRACING K"
  shows "motion_triangle_refine_local K kg sd P D t isect_object isect_prim verts =
         motion_triangle_refine K kg sd P D t isect_object isect_prim verts"
  using assms by (simp add: motion_triangle_refine_local_def)

theorem refine_local_gpu_raytracing_passthrough_witness:
  "KERNEL_GPU_RAYTRACING (exact_kernel\<lparr>KERNEL_GPU_RAYTRACING := True\<rparr>) \<and>
   motion_triangle_refine_local (exact_kernel\<lparr>KERNEL_GPU_RAYTRACING := True\<rparr>) stack
       \<lparr>object_flag = 0\<rparr> (0, 0, 0) (0, 0, 1) 1 0 2 ((1, 0, 2), (0, 1, 2), (0, 0, 2)) =
   motion_triangle_refine (exact_kernel\<lparr>KERNEL_GPU_RAYTRACING := True\<rparr>) stack
       \<lparr>object_flag = 0\<rparr> (0, 0, 0) (0, 0, 1) 1 0 2 ((1, 0, 2), (0, 1, 2), (0, 0, 2))"
proof -
  have h: "KERNEL_GPU_RAYTRACING (exact_kernel\<lparr>KERNEL_GPU_RAYTRACING := True\<rparr>)"
    by simp
  show ?thesis
    using h refine_local_gpu_raytracing_passthrough [OF h] by (rule conjI)
qed

text \<open>
  C4 (as amended). With \<^verbatim>\<open>SD_OBJECT_TRANSFORM_APPLIED\<close> set, \<open>motion_triangle_refine\<close>
  leaves out the two object transforms and the zero-distance exit, and nothing else: it
  advances to \<open>Q = P + D * t\<close> and still adds the corrective distance \<open>rt\<close>, so that
  the result is \<open>Q + D * rt\<close>. The naive point \<open>P + D * t\<close> is what it returns when
  \<^verbatim>\<open>__INTERSECTION_REFINE__\<close> is not defined.
\<close>

theorem refine_transform_applied:
  assumes "transform_applied K sd"
  shows "motion_triangle_refine K kg sd P D t isect_object isect_prim (verts0, verts1, verts2) =
         (if INTERSECTION_REFINE K then
            let Q = float3_add K P (float3_scale K D t);
                e1 = float3_sub K verts0 verts2;
                e2 = float3_sub K verts1 verts2;
                rt = float_mul K (dot K e2 (cross K (float3_sub K Q verts2) e1))
                       (float_div K (float_one K) (dot K (cross K D e2) e1))
            in float3_add K Q (float3_scale K D rt)
          else float3_add K P (float3_scale K D t))"
  using assms by (simp add: motion_triangle_refine_def Let_def)

theorem refine_transform_applied_witness:
  "transform_applied exact_kernel \<lparr>object_flag = 16\<rparr> \<and>
   motion_triangle_refine exact_kernel stack \<lparr>object_flag = 16\<rparr> (0, 0, 0) (0, 0, 1) 3 0 2
       ((1, 0, 2), (0, 1, 2), (0, 0, 2)) = (0, 0, 2)"
proof -
  have h: "transform_applied exact_kernel \<lparr>object_flag = 16\<rparr>"
    by (simp add: transform_applied_def exact_kernel_def)
  show ?thesis
    using h refine_transform_applied [OF h, of stack "(0, 0, 0)" "(0, 0, 1)" 3 0 2
                "(1, 0, 2)" "(0, 1, 2)" "(0, 0, 2)"]
    by (simp add: exact_kernel_simps)
qed

text \<open>
  C4, counterexample. The claim as written fails: with the flag set, a ray from the
  origin along \<open>z\<close> and a coarse distance 1 to a triangle in the plane \<open>z = 2\<close>, the
  function returns \<open>(0, 0, 2)\<close>, and the naive point is \<open>(0, 0, 1)\<close>.
\<close>

theorem refine_transform_applied_counterexample:
  "transform_applied exact_kernel \<lparr>object_flag = 16\<rparr> \<and>
   motion_triangle_refine exact_kernel stack \<lparr>object_flag = 16\<rparr> (0, 0, 0) (0, 0, 1) 1 0 2
       ((1, 0, 2), (0, 1, 2), (0, 0, 2)) = (0, 0, 2) \<and>
   float3_add exact_kernel (0, 0, 0) (float3_scale exact_kernel (0, 0, 1) 1) = (0, 0, 1) \<and>
   motion_triangle_refine exact_kernel stack \<lparr>object_flag = 16\<rparr> (0, 0, 0) (0, 0, 1) 1 0 2
       ((1, 0, 2), (0, 1, 2), (0, 0, 2)) \<noteq>
   float3_add exact_kernel (0, 0, 0) (float3_scale exact_kernel (0, 0, 1) 1)"
  by (simp add: motion_triangle_refine_def transform_applied_def exact_kernel_simps)

text \<open>
  C9 (as amended). When \<^verbatim>\<open>__INTERSECTION_REFINE__\<close> is defined and
  \<^verbatim>\<open>SD_OBJECT_TRANSFORM_APPLIED\<close> is not set, a call of \<open>motion_triangle_refine\<close> with
  \<^verbatim>\<open>t == 0.0f\<close> returns \<open>P\<close> unchanged, before any transform is fetched and before
  \<open>normalize_len\<close> is called.
\<close>

theorem refine_zero_distance:
  assumes "INTERSECTION_REFINE K"
      and "\<not> transform_applied K sd"
      and "float_eq K t (float_zero K)"
  shows "motion_triangle_refine K kg sd P D t isect_object isect_prim verts = P"
  using assms by (simp add: motion_triangle_refine_def split: prod.split)

theorem refine_zero_distance_witness:
  "INTERSECTION_REFINE exact_kernel \<and>
   \<not> transform_applied exact_kernel \<lparr>object_flag = 0\<rparr> \<and>
   float_eq exact_kernel 0 (float_zero exact_kernel) \<and>
   motion_triangle_refine exact_kernel stack \<lparr>object_flag = 0\<rparr> (1, 2, 3) (0, 0, 1) 0 0 2
       ((1, 0, 2), (0, 1, 2), (0, 0, 2)) = (1, 2, 3)"
proof -
  have h1: "INTERSECTION_REFINE exact_kernel" by (simp add: exact_kernel_def)
  have h2: "\<not> transform_applied exact_kernel \<lparr>object_flag = 0\<rparr>"
    by (simp add: transform_applied_def)
  have h3: "float_eq exact_kernel 0 (float_zero exact_kernel)" by (simp add: exact_kernel_def)
  show ?thesis using h1 h2 h3 refine_zero_distance [OF h1 h2 h3] by simp
qed

text \<open>
  C9, counterexample. The claim as written fails: the test of \<^verbatim>\<open>t == 0.0f\<close> sits inside the branch for
  objects whose transform is not applied. With the flag set and \<open>t = 0\<close> the function
  refines all the same and moves the origin onto the triangle's plane.
\<close>

theorem refine_zero_distance_counterexample:
  "float_eq exact_kernel 0 (float_zero exact_kernel) \<and>
   motion_triangle_refine exact_kernel stack \<lparr>object_flag = 16\<rparr> (0, 0, 0) (0, 0, 1) 0 0 2
       ((1, 0, 2), (0, 1, 2), (0, 0, 2)) = (0, 0, 2) \<and>
   motion_triangle_refine exact_kernel stack \<lparr>object_flag = 16\<rparr> (0, 0, 0) (0, 0, 1) 0 0 2
       ((1, 0, 2), (0, 1, 2), (0, 0, 2)) \<noteq> (0, 0, 0)"
  by (simp add: motion_triangle_refine_def transform_applied_def exact_kernel_simps)

section \<open>The nearest-hit intersector\<close>

text \<open>
  C5. With \<^verbatim>\<open>__VISIBILITY_FLAG__\<close> defined, \<open>motion_triangle_intersect\<close> returns true
  exactly when the ray-triangle test accepts and the fetched visibility flags of the
  primitive have a bit in common with the caller's mask; then the caller's record holds
  exactly \<open>(t, u, v, prim, object, PRIMITIVE_MOTION_TRIANGLE)\<close>; and when it returns false
  the caller's record is as it was.
\<close>

theorem intersect_visibility_filter:
  assumes "VISIBILITY_FLAG K"
      and "motion_triangle_vertices K kg object prim time = (verts0, verts1, verts2)"
  shows "(fst (motion_triangle_intersect K kg isect P dir tmax time visibility object prim prim_addr)
            \<longleftrightarrow> ray_triangle_intersect K P dir tmax verts0 verts1 verts2 \<noteq> None
                \<and> prim_visibility K kg prim_addr AND visibility \<noteq> 0)
       \<and> (\<forall>u v t. ray_triangle_intersect K P dir tmax verts0 verts1 verts2 = Some (u, v, t)
                  \<and> prim_visibility K kg prim_addr AND visibility \<noteq> 0
            \<longrightarrow> motion_triangle_intersect K kg isect P dir tmax time visibility object prim prim_addr
                  = (True, motion_hit K t u v prim object))
       \<and> (\<not> fst (motion_triangle_intersect K kg isect P dir tmax time visibility object prim prim_addr)
            \<longrightarrow> snd (motion_triangle_intersect K kg isect P dir tmax time visibility
                       object prim prim_addr) = isect)"
  using assms
  by (simp add: motion_triangle_intersect_def overwrite_all_fields split: option.split)

theorem intersect_visibility_filter_witness:
  "VISIBILITY_FLAG exact_kernel \<and>
   motion_triangle_vertices exact_kernel stack 0 5 0 = ((1, 0, 5), (0, 1, 5), (0, 0, 5)) \<and>
   motion_triangle_intersect exact_kernel stack
       \<lparr>hit_t = 0, hit_u = 0, hit_v = 0, hit_prim = 0, hit_object = 0, hit_type = 0\<rparr>
       (1 / 4, 1 / 4, 0) (0, 0, 1) 100 0 1 0 5 5 =
     (True, \<lparr>hit_t = 5, hit_u = 1 / 4, hit_v = 1 / 4, hit_prim = 5, hit_object = 0,
             hit_type = 2\<rparr>)"
proof -
  let ?r = "motion_triangle_intersect exact_kernel stack
       \<lparr>hit_t = 0, hit_u = 0, hit_v = 0, hit_prim = 0, hit_object = 0, hit_type = 0\<rparr>
       (1 / 4, 1 / 4, 0) (0, 0, 1) 100 0 1 0 5 5"
  have h1: "VISIBILITY_FLAG exact_kernel" by (simp add: exact_kernel_def)
  have h2: "motion_triangle_vertices exact_kernel stack 0 5 0 = ((1, 0, 5), (0, 1, 5), (0, 0, 5))"
    by (simp add: exact_kernel_simps)
  have ray: "ray_triangle_intersect exact_kernel (1 / 4, 1 / 4, 0) (0, 0, 1) 100
               (1, 0, 5) (0, 1, 5) (0, 0, 5) = Some (1 / 4, 1 / 4, 5)"
    by (simp add: exact_kernel_simps)
  have vis: "prim_visibility exact_kernel stack 5 AND 1 \<noteq> 0"
    by (simp add: exact_kernel_simps)
  have ty: "PRIMITIVE_MOTION_TRIANGLE exact_kernel = 2" by (simp add: exact_kernel_def)
  note step = intersect_visibility_filter [OF h1 h2, where isect = "\<lparr>hit_t = 0, hit_u = 0, hit_v = 0, hit_prim = 0, hit_object = 0, hit_type = 0\<rparr>"
     and P = "(1 / 4, 1 / 4, 0)" and dir = "(0, 0, 1)" and tmax = 100 and visibility = 1 and prim_addr = 5]
  from step ray vis have "?r = (True, motion_hit exact_kernel 5 (1 / 4) (1 / 4) 5 0)"
    by blast
  then have "?r = (True, \<lparr>hit_t = 5, hit_u = 1 / 4, hit_v = 1 / 4, hit_prim = 5, hit_object = 0,
             hit_type = 2\<rparr>)" by (simp only: ty)
  with h1 h2 show ?thesis by simp
qed

section \<open>The local intersector\<close>

text \<open>
  In the theorems of this section the buffer is one the caller can pass: the count is not
  negative and below \<^verbatim>\<open>INT_MAX\<close>, and both arrays have at least \<open>max_hits\<close> slots.
\<close>

text \<open>
  C1. Reservoir mode (a random state is supplied, \<open>max_hits > 0\<close>), the ray-triangle test
  accepts and no scanned slot has the candidate's distance. The count is incremented. If
  the new count is at most \<open>max_hits\<close>, the candidate's record and normal are written to
  slot \<open>count - 1\<close> and the random state is not touched. If the new count exceeds
  \<open>max_hits\<close>, one value \<open>r\<close> is drawn and the index is \<open>r mod count\<close>, which lies in
  \<open>[0, count)\<close>; when the index is at least \<open>max_hits\<close> the call returns false and no
  slot is written, and otherwise the record and normal replace the slot at the index.
\<close>

theorem reservoir_step:
  assumes verts: "motion_triangle_vertices K kg object prim time = (verts0, verts1, verts2)"
      and accept: "ray_triangle_intersect K P dir tmax verts0 verts1 verts2 = Some (u, v, t)"
      and pos: "0 < sint max_hits"
      and lo: "0 \<le> sint (num_hits li)"
      and hi: "sint (num_hits li) < 2 ^ 31 - 1"
      and cap_hits: "sint max_hits \<le> int (length (hits li))"
      and cap_Ng: "sint max_hits \<le> int (length (Ng li))"
      and nodup: "\<forall>i < min (nat (sint max_hits)) (nat (sint (num_hits li))).
                    \<not> float_eq K (hit_t (hits li ! i)) t"
      and draw: "lcg_step_uint K s = (r, s')"
  shows "sint (num_hits li + 1) = sint (num_hits li) + 1
       \<and> (sint (num_hits li + 1) \<le> sint max_hits \<longrightarrow>
            motion_triangle_intersect_local K kg li P dir time object prim prim_addr tmax
              (Some s) max_hits =
            Inr (False,
                 li\<lparr>num_hits := num_hits li + 1,
                    hits := (hits li)[nat (sint (num_hits li + 1) - 1) :=
                              motion_hit K t u v prim object],
                    Ng := (Ng li)[nat (sint (num_hits li + 1) - 1) :=
                            geometric_normal K verts0 verts1 verts2]\<rparr>,
                 Some s))
       \<and> (sint max_hits < sint (num_hits li + 1) \<longrightarrow>
            0 \<le> sint (r mod (num_hits li + 1))
          \<and> sint (r mod (num_hits li + 1)) < sint (num_hits li + 1)
          \<and> (sint max_hits \<le> sint (r mod (num_hits li + 1)) \<longrightarrow>
                motion_triangle_intersect_local K kg li P dir time object prim prim_addr tmax
                  (Some s) max_hits =
                Inr (False, li\<lparr>num_hits := num_hits li + 1\<rparr>, Some s'))
          \<and> (sint (r mod (num_hits li + 1)) < sint max_hits \<longrightarrow>
                motion_triangle_intersect_local K kg li P dir time object prim prim_addr tmax
                  (Some s) max_hits =
                Inr (False,
                     li\<lparr>num_hits := num_hits li + 1,
                        hits := (hits li)[nat (sint (r mod (num_hits li + 1))) :=
                                  motion_hit K t u v prim object],
                        Ng := (Ng li)[nat (sint (r mod (num_hits li + 1))) :=
                                geometric_normal K verts0 verts1 verts2]\<rparr>,
                     Some s')))"
proof -
  have succ: "sint (num_hits li + 1) = sint (num_hits li) + 1" using hi by (simp add: sint_succ)
  then have "0 < sint (num_hits li + 1)" using lo by simp
  then have bounds: "0 \<le> sint (r mod (num_hits li + 1))
                   \<and> sint (r mod (num_hits li + 1)) < sint (num_hits li + 1)"
    by (rule sint_mod_bounds)
  note step = local_reservoir_no_duplicate [OF verts accept pos lo hi cap_hits cap_Ng nodup,
                of prim_addr s]
  show ?thesis using succ bounds by (simp add: step draw)
qed

theorem reservoir_step_witness:
  "motion_triangle_vertices exact_kernel stack 0 7 0 = ((1, 0, 7), (0, 1, 7), (0, 0, 7)) \<and>
   ray_triangle_intersect exact_kernel (1 / 4, 1 / 4, 0) (0, 0, 1) 100
     (1, 0, 7) (0, 1, 7) (0, 0, 7) = Some (1 / 4, 1 / 4, 7) \<and>
   lcg_step_uint exact_kernel 1 = (1103527590, 1103527590) \<and>
   sint (1103527590 mod (2 + 1) :: cuint) = 0 \<and>
   motion_triangle_intersect_local exact_kernel stack
       \<lparr>num_hits = 2,
        hits = [motion_hit exact_kernel 1 (1 / 4) (1 / 4) 1 0,
                motion_hit exact_kernel 2 (1 / 4) (1 / 4) 2 0],
        Ng = [(0, 0, 1), (0, 0, 1)]\<rparr>
       (1 / 4, 1 / 4, 0) (0, 0, 1) 0 0 7 7 100 (Some 1) 2 =
     Inr (False,
          \<lparr>num_hits = 3,
           hits = [motion_hit exact_kernel 7 (1 / 4) (1 / 4) 7 0,
                   motion_hit exact_kernel 2 (1 / 4) (1 / 4) 2 0],
           Ng = [(0, 0, 1), (0, 0, 1)]\<rparr>,
          Some 1103527590)"
proof -
  let ?li = "\<lparr>num_hits = 2 :: cint,
        hits = [motion_hit exact_kernel 1 (1 / 4) (1 / 4) 1 0,
                motion_hit exact_kernel 2 (1 / 4) (1 / 4) 2 0],
        Ng = [(0, 0, 1), (0, 0, 1 :: real)]\<rparr>"
  have verts: "motion_triangle_vertices exact_kernel stack 0 7 0 =
                 ((1, 0, 7), (0, 1, 7), (0, 0, 7))"
    by (simp add: exact_kernel_simps)
  have accept: "ray_triangle_intersect exact_kernel (1 / 4, 1 / 4, 0) (0, 0, 1) 100
                  (1, 0, 7) (0, 1, 7) (0, 0, 7) = Some (1 / 4, 1 / 4, 7)"
    by (simp add: exact_kernel_simps)
  have pos: "0 < sint (2 :: cint)" by simp
  have lo: "0 \<le> sint (num_hits ?li)" by simp
  have hi: "sint (num_hits ?li) < 2 ^ 31 - 1" by simp
  have cap_hits: "sint (2 :: cint) \<le> int (length (hits ?li))" by simp
  have cap_Ng: "sint (2 :: cint) \<le> int (length (Ng ?li))" by simp
  have nodup: "\<forall>i < min (nat (sint (2 :: cint))) (nat (sint (num_hits ?li))).
                 \<not> float_eq exact_kernel (hit_t (hits ?li ! i)) 7"
    by (simp add: exact_kernel_def less_Suc_eq numeral_2_eq_2)
  have draw: "lcg_step_uint exact_kernel 1 = (1103527590, 1103527590)"
    by (simp add: exact_kernel_simps)
  have idx: "sint (1103527590 mod (2 + 1) :: cuint) = 0" by simp
  have normal: "geometric_normal exact_kernel (1, 0, 7) (0, 1, 7) (0, 0, 7) = (0, 0, 1)"
    by (simp add: exact_kernel_simps)
  note step = reservoir_step [OF verts accept pos lo hi cap_hits cap_Ng nodup draw, of 7]
  show ?thesis
    using verts accept draw idx step by (simp add: normal)
qed

text \<open>
  C10. Under the hypotheses of C1 the call returns false with the count incremented by
  one, whichever way it takes; and when the draw discards the candidate (the new count
  exceeds \<open>max_hits\<close> and the drawn index is at least \<open>max_hits\<close>), the buffer after the
  call is the buffer before it with only \<open>num_hits\<close> incremented: the stored records and
  normals are the same.
\<close>

theorem reservoir_discard_counts:
  assumes verts: "motion_triangle_vertices K kg object prim time = (verts0, verts1, verts2)"
      and accept: "ray_triangle_intersect K P dir tmax verts0 verts1 verts2 = Some (u, v, t)"
      and pos: "0 < sint max_hits"
      and lo: "0 \<le> sint (num_hits li)"
      and hi: "sint (num_hits li) < 2 ^ 31 - 1"
      and cap_hits: "sint max_hits \<le> int (length (hits li))"
      and cap_Ng: "sint max_hits \<le> int (length (Ng li))"
      and nodup: "\<forall>i < min (nat (sint max_hits)) (nat (sint (num_hits li))).
                    \<not> float_eq K (hit_t (hits li ! i)) t"
      and draw: "lcg_step_uint K s = (r, s')"
  shows "(\<exists>li' s''. motion_triangle_intersect_local K kg li P dir time object prim prim_addr
                      tmax (Some s) max_hits = Inr (False, li', s'')
                  \<and> sint (num_hits li') = sint (num_hits li) + 1)
       \<and> (sint max_hits < sint (num_hits li + 1)
            \<and> sint max_hits \<le> sint (r mod (num_hits li + 1)) \<longrightarrow>
            motion_triangle_intersect_local K kg li P dir time object prim prim_addr tmax
              (Some s) max_hits =
            Inr (False, li\<lparr>num_hits := num_hits li + 1\<rparr>, Some s')
          \<and> hits (li\<lparr>num_hits := num_hits li + 1\<rparr>) = hits li
          \<and> Ng (li\<lparr>num_hits := num_hits li + 1\<rparr>) = Ng li)"
proof -
  have succ: "sint (num_hits li + 1) = sint (num_hits li) + 1" using hi by (simp add: sint_succ)
  note step = local_reservoir_no_duplicate [OF verts accept pos lo hi cap_hits cap_Ng nodup,
                of prim_addr s]
  show ?thesis using succ by (simp add: step draw)
qed

theorem reservoir_discard_counts_witness:
  "motion_triangle_vertices exact_kernel stack 0 7 0 = ((1, 0, 7), (0, 1, 7), (0, 0, 7)) \<and>
   ray_triangle_intersect exact_kernel (1 / 4, 1 / 4, 0) (0, 0, 1) 100
     (1, 0, 7) (0, 1, 7) (0, 0, 7) = Some (1 / 4, 1 / 4, 7) \<and>
   lcg_step_uint exact_kernel 0 = (12345, 12345) \<and>
   sint (12345 mod (1 + 1) :: cuint) = 1 \<and>
   motion_triangle_intersect_local exact_kernel stack
       \<lparr>num_hits = 1, hits = [motion_hit exact_kernel 1 (1 / 4) (1 / 4) 1 0],
        Ng = [(0, 0, 1)]\<rparr>
       (1 / 4, 1 / 4, 0) (0, 0, 1) 0 0 7 7 100 (Some 0) 1 =
     Inr (False,
          \<lparr>num_hits = 2, hits = [motion_hit exact_kernel 1 (1 / 4) (1 / 4) 1 0],
           Ng = [(0, 0, 1)]\<rparr>,
          Some 12345)"
proof -
  let ?li = "\<lparr>num_hits = 1 :: cint, hits = [motion_hit exact_kernel 1 (1 / 4) (1 / 4) 1 0],
        Ng = [(0, 0, 1 :: real)]\<rparr>"
  have verts: "motion_triangle_vertices exact_kernel stack 0 7 0 =
                 ((1, 0, 7), (0, 1, 7), (0, 0, 7))"
    by (simp add: exact_kernel_simps)
  have accept: "ray_triangle_intersect exact_kernel (1 / 4, 1 / 4, 0) (0, 0, 1) 100
                  (1, 0, 7) (0, 1, 7) (0, 0, 7) = Some (1 / 4, 1 / 4, 7)"
    by (simp add: exact_kernel_simps)
  have pos: "0 < sint (1 :: cint)" by simp
  have lo: "0 \<le> sint (num_hits ?li)" by simp
  have hi: "sint (num_hits ?li) < 2 ^ 31 - 1" by simp
  have cap_hits: "sint (1 :: cint) \<le> int (length (hits ?li))" by simp
  have cap_Ng: "sint (1 :: cint) \<le> int (length (Ng ?li))" by simp
  have nodup: "\<forall>i < min (nat (sint (1 :: cint))) (nat (sint (num_hits ?li))).
                 \<not> float_eq exact_kernel (hit_t (hits ?li ! i)) 7"
    by (simp add: exact_kernel_def)
  have draw: "lcg_step_uint exact_kernel 0 = (12345, 12345)"
    by (simp add: exact_kernel_simps)
  have idx: "sint (12345 mod (1 + 1) :: cuint) = 1" by simp
  note step = reservoir_discard_counts [OF verts accept pos lo hi cap_hits cap_Ng nodup draw, of 7]
  show ?thesis
    using verts accept draw idx step by simp
qed

text \<open>
  C6. Reservoir mode, \<open>max_hits > 0\<close>: if one of the first \<open>min(max_hits, num_hits)\<close>
  slots holds a record whose \<open>t\<close> compares equal (\<^verbatim>\<open>==\<close>) to the candidate's, the call
  returns false, and the buffer (count, records, normals) and the random state are the
  ones passed in.
\<close>

theorem duplicate_rejected_unchanged:
  assumes verts: "motion_triangle_vertices K kg object prim time = (verts0, verts1, verts2)"
      and accept: "ray_triangle_intersect K P dir tmax verts0 verts1 verts2 = Some (u, v, t)"
      and pos: "0 < sint max_hits"
      and cap_hits: "sint max_hits \<le> int (length (hits li))"
      and idx: "i < min (nat (sint max_hits)) (nat (sint (num_hits li)))"
      and dup: "float_eq K (hit_t (hits li ! i)) t"
  shows "motion_triangle_intersect_local K kg li P dir time object prim prim_addr tmax
           (Some s) max_hits = Inr (False, li, Some s)"
  using verts accept pos cap_hits idx dup by (rule local_reservoir_duplicate)

theorem duplicate_rejected_unchanged_witness:
  "motion_triangle_vertices exact_kernel stack 0 2 0 = ((1, 0, 2), (0, 1, 2), (0, 0, 2)) \<and>
   ray_triangle_intersect exact_kernel (1 / 4, 1 / 4, 0) (0, 0, 1) 100
     (1, 0, 2) (0, 1, 2) (0, 0, 2) = Some (1 / 4, 1 / 4, 2) \<and>
   float_eq exact_kernel
     (hit_t ([motion_hit exact_kernel 1 (1 / 4) (1 / 4) 1 0,
              motion_hit exact_kernel 2 (1 / 4) (1 / 4) 2 0] ! 1)) 2 \<and>
   motion_triangle_intersect_local exact_kernel stack
       \<lparr>num_hits = 2,
        hits = [motion_hit exact_kernel 1 (1 / 4) (1 / 4) 1 0,
                motion_hit exact_kernel 2 (1 / 4) (1 / 4) 2 0],
        Ng = [(0, 0, 1), (0, 0, 1)]\<rparr>
       (1 / 4, 1 / 4, 0) (0, 0, 1) 0 0 2 2 100 (Some 1) 2 =
     Inr (False,
          \<lparr>num_hits = 2,
           hits = [motion_hit exact_kernel 1 (1 / 4) (1 / 4) 1 0,
                   motion_hit exact_kernel 2 (1 / 4) (1 / 4) 2 0],
           Ng = [(0, 0, 1), (0, 0, 1)]\<rparr>,
          Some 1)"
proof -
  let ?li = "\<lparr>num_hits = 2 :: cint,
        hits = [motion_hit exact_kernel 1 (1 / 4) (1 / 4) 1 0,
                motion_hit exact_kernel 2 (1 / 4) (1 / 4) 2 0],
        Ng = [(0, 0, 1), (0, 0, 1 :: real)]\<rparr>"
  have verts: "motion_triangle_vertices exact_kernel stack 0 2 0 =
                 ((1, 0, 2), (0, 1, 2), (0, 0, 2))"
    by (simp add: exact_kernel_simps)
  have accept: "ray_triangle_intersect exact_kernel (1 / 4, 1 / 4, 0) (0, 0, 1) 100
                  (1, 0, 2) (0, 1, 2) (0, 0, 2) = Some (1 / 4, 1 / 4, 2)"
    by (simp add: exact_kernel_simps)
  have pos: "0 < sint (2 :: cint)" by simp
  have cap_hits: "sint (2 :: cint) \<le> int (length (hits ?li))" by simp
  have idx: "1 < min (nat (sint (2 :: cint))) (nat (sint (num_hits ?li)))" by simp
  have dup: "float_eq exact_kernel (hit_t (hits ?li ! 1)) 2" by (simp add: exact_kernel_def)
  note step = duplicate_rejected_unchanged [OF verts accept pos cap_hits idx dup, of 2 1]
  show ?thesis
    using verts accept dup step by simp
qed

text \<open>
  C7. \<open>motion_triangle_intersect_local\<close> returns true exactly when the ray-triangle test
  accepts and \<open>max_hits = 0\<close>; in that case the buffer and the random state are
  returned as they were passed. For a buffer the caller can pass, the call returns, and
  its value is false in every other case.
\<close>

theorem local_returns_true_only_for_existence_check:
  assumes verts: "motion_triangle_vertices K kg object prim time = (verts0, verts1, verts2)"
  shows "((\<exists>li' s'. motion_triangle_intersect_local K kg li P dir time object prim prim_addr
                      tmax lcg_state max_hits = Inr (True, li', s'))
            \<longleftrightarrow> ray_triangle_intersect K P dir tmax verts0 verts1 verts2 \<noteq> None
                \<and> max_hits = 0)
       \<and> (ray_triangle_intersect K P dir tmax verts0 verts1 verts2 \<noteq> None \<and> max_hits = 0
            \<longrightarrow> motion_triangle_intersect_local K kg li P dir time object prim prim_addr
                  tmax lcg_state max_hits = Inr (True, li, lcg_state))
       \<and> (0 \<le> sint max_hits \<and> 0 \<le> sint (num_hits li) \<and> sint (num_hits li) < 2 ^ 31 - 1
            \<and> sint max_hits \<le> int (length (hits li)) \<and> sint max_hits \<le> int (length (Ng li))
            \<longrightarrow> (\<exists>li' s'. motion_triangle_intersect_local K kg li P dir time object prim
                           prim_addr tmax lcg_state max_hits =
                         Inr (ray_triangle_intersect K P dir tmax verts0 verts1 verts2 \<noteq> None
                                \<and> max_hits = 0, li', s')))"
proof -
  let ?R = "motion_triangle_intersect_local K kg li P dir time object prim prim_addr
              tmax lcg_state max_hits"
  let ?ray = "ray_triangle_intersect K P dir tmax verts0 verts1 verts2"
  have existence: "?R = Inr (True, li, lcg_state)" if "?ray \<noteq> None \<and> max_hits = 0"
    using that verts by (auto simp: motion_triangle_intersect_local_def)
  have only: "?ray \<noteq> None \<and> max_hits = 0" if "?R = Inr (True, li', s')" for li' s'
    using local_result_flag [OF verts that] by simp
  have returns: "\<exists>li' s'. ?R = Inr (?ray \<noteq> None \<and> max_hits = 0, li', s')"
    if wf: "0 \<le> sint max_hits \<and> 0 \<le> sint (num_hits li) \<and> sint (num_hits li) < 2 ^ 31 - 1
            \<and> sint max_hits \<le> int (length (hits li)) \<and> sint max_hits \<le> int (length (Ng li))"
  proof (cases ?ray)
    case None
    then show ?thesis using verts by (simp add: motion_triangle_intersect_local_def)
  next
    case (Some uvt)
    obtain u v t where uvt: "uvt = (u, v, t)" by (cases uvt) auto
    note accept = Some [unfolded uvt]
    show ?thesis
    proof (cases "max_hits = 0")
      case True
      then show ?thesis using existence accept by simp
    next
      case nz: False
      then have "sint max_hits \<noteq> 0" by (metis signed_0 signed_word_eqI)
      then have pos: "0 < sint max_hits" using wf by simp
      show ?thesis
      proof (cases lcg_state)
        case None
        have "hits li \<noteq> []" "Ng li \<noteq> []" using pos wf by auto
        from local_closest_only [OF verts accept nz this, of prim_addr]
        show ?thesis using nz None by auto
      next
        case (Some s)
        show ?thesis
        proof (cases "\<exists>i < min (nat (sint max_hits)) (nat (sint (num_hits li))).
                        float_eq K (hit_t (hits li ! i)) t")
          case True
          then obtain i where "i < min (nat (sint max_hits)) (nat (sint (num_hits li)))"
            and "float_eq K (hit_t (hits li ! i)) t" by blast
          from local_reservoir_duplicate [OF verts accept pos _ this, of prim_addr s]
          show ?thesis using nz Some wf by simp
        next
          case False
          then have nodup: "\<forall>i < min (nat (sint max_hits)) (nat (sint (num_hits li))).
                              \<not> float_eq K (hit_t (hits li ! i)) t" by blast
          from wf have lo: "0 \<le> sint (num_hits li)" and hi: "sint (num_hits li) < 2 ^ 31 - 1"
            and c1: "sint max_hits \<le> int (length (hits li))"
            and c2: "sint max_hits \<le> int (length (Ng li))" by simp_all
          from local_reservoir_no_duplicate [OF verts accept pos lo hi c1 c2 nodup, of prim_addr s]
          show ?thesis using nz Some by (simp split: if_splits)
        qed
      qed
    qed
  qed
  show ?thesis using existence only returns by blast
qed

theorem local_returns_true_only_for_existence_check_witness:
  "motion_triangle_vertices exact_kernel stack 0 7 0 = ((1, 0, 7), (0, 1, 7), (0, 0, 7)) \<and>
   ray_triangle_intersect exact_kernel (1 / 4, 1 / 4, 0) (0, 0, 1) 100
     (1, 0, 7) (0, 1, 7) (0, 0, 7) \<noteq> None \<and>
   motion_triangle_intersect_local exact_kernel stack
       \<lparr>num_hits = 0, hits = [], Ng = []\<rparr>
       (1 / 4, 1 / 4, 0) (0, 0, 1) 0 0 7 7 100 (Some 1) 0 =
     Inr (True, \<lparr>num_hits = 0, hits = [], Ng = []\<rparr>, Some 1)"
proof -
  have verts: "motion_triangle_vertices exact_kernel stack 0 7 0 =
                 ((1, 0, 7), (0, 1, 7), (0, 0, 7))"
    by (simp add: exact_kernel_simps)
  have accept: "ray_triangle_intersect exact_kernel (1 / 4, 1 / 4, 0) (0, 0, 1) 100
                  (1, 0, 7) (0, 1, 7) (0, 0, 7) \<noteq> None"
    by (simp add: exact_kernel_simps)
  note step = local_returns_true_only_for_existence_check [OF verts,
                where P = "(1 / 4, 1 / 4, 0)" and dir = "(0, 0, 1)" and tmax = 100
                  and li = "\<lparr>num_hits = 0, hits = [], Ng = []\<rparr>" and prim_addr = 7
                  and lcg_state = "Some 1" and max_hits = 0]
  show ?thesis using verts accept step by blast
qed

text \<open>
  C3 (as amended). Closest-only mode (no random state, \<open>max_hits > 0\<close>), the ray-triangle
  test accepts: the candidate is rejected, and the buffer is unchanged, when the buffer
  holds a hit (\<open>num_hits \<noteq> 0\<close>) and the candidate's \<open>t\<close> is greater than (\<^verbatim>\<open>>\<close>) the \<open>t\<close> in
  slot 0; otherwise, also when the two distances are equal, the candidate's record and
  normal overwrite slot 0 and the count is set to 1. In particular, three candidates
  \<open>a\<close>, \<open>b\<close>, \<open>c\<close> offered to an empty buffer, with \<open>b\<close> not farther than \<open>a\<close> and
  \<open>c\<close> farther than \<open>b\<close> (such as the distances 5, 3, 7), leave exactly one stored
  hit, that of \<open>b\<close>.
\<close>

theorem closest_only_keeps_nearest:
  assumes verts_a: "motion_triangle_vertices K kg object prim_a time = (a0, a1, a2)"
      and accept_a: "ray_triangle_intersect K P dir tmax a0 a1 a2 = Some (ua, va, ta)"
      and verts_b: "motion_triangle_vertices K kg object prim_b time = (b0, b1, b2)"
      and accept_b: "ray_triangle_intersect K P dir tmax b0 b1 b2 = Some (ub, vb, tb)"
      and verts_c: "motion_triangle_vertices K kg object prim_c time = (c0, c1, c2)"
      and accept_c: "ray_triangle_intersect K P dir tmax c0 c1 c2 = Some (uc, vc, tc)"
      and pos: "0 < sint max_hits"
      and slot_hits: "hits li \<noteq> []"
      and slot_Ng: "Ng li \<noteq> []"
  shows "motion_triangle_intersect_local K kg li P dir time object prim_a addr_a tmax
           None max_hits =
         (if num_hits li \<noteq> 0 \<and> float_gt K ta (hit_t (hits li ! 0))
          then Inr (False, li, None)
          else Inr (False,
                    li\<lparr>num_hits := 1,
                       hits := (hits li)[0 := motion_hit K ta ua va prim_a object],
                       Ng := (Ng li)[0 := geometric_normal K a0 a1 a2]\<rparr>,
                    None))
       \<and> (num_hits li = 0 \<and> \<not> float_gt K tb ta \<and> float_gt K tc tb \<longrightarrow>
            (\<exists>li1 li2.
               motion_triangle_intersect_local K kg li P dir time object prim_a addr_a tmax
                 None max_hits = Inr (False, li1, None)
             \<and> motion_triangle_intersect_local K kg li1 P dir time object prim_b addr_b tmax
                 None max_hits = Inr (False, li2, None)
             \<and> motion_triangle_intersect_local K kg li2 P dir time object prim_c addr_c tmax
                 None max_hits = Inr (False, li2, None)
             \<and> num_hits li2 = 1
             \<and> hits li2 = (hits li)[0 := motion_hit K tb ub vb prim_b object]
             \<and> Ng li2 = (Ng li)[0 := geometric_normal K b0 b1 b2]))"
proof -
  have nz: "max_hits \<noteq> 0" using pos by auto
  note step_a = local_closest_only [OF verts_a accept_a nz]
  note step_b = local_closest_only [OF verts_b accept_b nz]
  note step_c = local_closest_only [OF verts_c accept_c nz]
  have rule: "motion_triangle_intersect_local K kg li P dir time object prim_a addr_a tmax
           None max_hits =
         (if num_hits li \<noteq> 0 \<and> float_gt K ta (hit_t (hits li ! 0))
          then Inr (False, li, None)
          else Inr (False,
                    li\<lparr>num_hits := 1,
                       hits := (hits li)[0 := motion_hit K ta ua va prim_a object],
                       Ng := (Ng li)[0 := geometric_normal K a0 a1 a2]\<rparr>,
                    None))"
    using slot_hits slot_Ng by (rule step_a)
  have run: "\<exists>li1 li2.
               motion_triangle_intersect_local K kg li P dir time object prim_a addr_a tmax
                 None max_hits = Inr (False, li1, None)
             \<and> motion_triangle_intersect_local K kg li1 P dir time object prim_b addr_b tmax
                 None max_hits = Inr (False, li2, None)
             \<and> motion_triangle_intersect_local K kg li2 P dir time object prim_c addr_c tmax
                 None max_hits = Inr (False, li2, None)
             \<and> num_hits li2 = 1
             \<and> hits li2 = (hits li)[0 := motion_hit K tb ub vb prim_b object]
             \<and> Ng li2 = (Ng li)[0 := geometric_normal K b0 b1 b2]"
    if empty: "num_hits li = 0" and ba: "\<not> float_gt K tb ta" and cb: "float_gt K tc tb"
  proof -
    let ?li1 = "li\<lparr>num_hits := 1,
                    hits := (hits li)[0 := motion_hit K ta ua va prim_a object],
                    Ng := (Ng li)[0 := geometric_normal K a0 a1 a2]\<rparr>"
    let ?li2 = "li\<lparr>num_hits := 1,
                    hits := (hits li)[0 := motion_hit K tb ub vb prim_b object],
                    Ng := (Ng li)[0 := geometric_normal K b0 b1 b2]\<rparr>"
    have first: "motion_triangle_intersect_local K kg li P dir time object prim_a addr_a tmax
                   None max_hits = Inr (False, ?li1, None)"
      using rule empty by simp
    have "hits ?li1 \<noteq> []" "Ng ?li1 \<noteq> []" using slot_hits slot_Ng by simp_all
    from step_b [OF this, of addr_b]
    have second: "motion_triangle_intersect_local K kg ?li1 P dir time object prim_b addr_b tmax
                    None max_hits = Inr (False, ?li2, None)"
      using ba slot_hits by (simp add: neq_Nil_conv[THEN iffD1] nth_list_update)
    have "hits ?li2 \<noteq> []" "Ng ?li2 \<noteq> []" using slot_hits slot_Ng by simp_all
    from step_c [OF this, of addr_c]
    have third: "motion_triangle_intersect_local K kg ?li2 P dir time object prim_c addr_c tmax
                   None max_hits = Inr (False, ?li2, None)"
      using cb slot_hits by (simp add: nth_list_update)
    show ?thesis
      apply (rule exI [of _ ?li1])
      apply (rule exI [of _ ?li2])
      using first second third by simp
  qed
  show ?thesis using rule run by blast
qed

theorem closest_only_keeps_nearest_witness:
  "motion_triangle_vertices exact_kernel stack 0 5 0 = ((1, 0, 5), (0, 1, 5), (0, 0, 5)) \<and>
   ray_triangle_intersect exact_kernel (1 / 4, 1 / 4, 0) (0, 0, 1) 100
     (1, 0, 5) (0, 1, 5) (0, 0, 5) = Some (1 / 4, 1 / 4, 5) \<and>
   motion_triangle_vertices exact_kernel stack 0 3 0 = ((1, 0, 3), (0, 1, 3), (0, 0, 3)) \<and>
   ray_triangle_intersect exact_kernel (1 / 4, 1 / 4, 0) (0, 0, 1) 100
     (1, 0, 3) (0, 1, 3) (0, 0, 3) = Some (1 / 4, 1 / 4, 3) \<and>
   motion_triangle_vertices exact_kernel stack 0 7 0 = ((1, 0, 7), (0, 1, 7), (0, 0, 7)) \<and>
   ray_triangle_intersect exact_kernel (1 / 4, 1 / 4, 0) (0, 0, 1) 100
     (1, 0, 7) (0, 1, 7) (0, 0, 7) = Some (1 / 4, 1 / 4, 7) \<and>
   \<not> float_gt exact_kernel 3 5 \<and> float_gt exact_kernel 7 3 \<and>
   (\<exists>li1 li2.
      motion_triangle_intersect_local exact_kernel stack
        \<lparr>num_hits = 0, hits = [motion_hit exact_kernel 0 0 0 0 0], Ng = [(0, 0, 0)]\<rparr>
        (1 / 4, 1 / 4, 0) (0, 0, 1) 0 0 5 5 100 None 1 = Inr (False, li1, None)
    \<and> motion_triangle_intersect_local exact_kernel stack li1
        (1 / 4, 1 / 4, 0) (0, 0, 1) 0 0 3 3 100 None 1 = Inr (False, li2, None)
    \<and> motion_triangle_intersect_local exact_kernel stack li2
        (1 / 4, 1 / 4, 0) (0, 0, 1) 0 0 7 7 100 None 1 = Inr (False, li2, None)
    \<and> num_hits li2 = 1
    \<and> hits li2 = [motion_hit exact_kernel 3 (1 / 4) (1 / 4) 3 0]
    \<and> Ng li2 = [(0, 0, 1)])"
proof -
  let ?li = "\<lparr>num_hits = 0 :: cint, hits = [motion_hit exact_kernel 0 0 0 0 0],
              Ng = [(0, 0, 0 :: real)]\<rparr>"
  have verts_a: "motion_triangle_vertices exact_kernel stack 0 5 0 =
                   ((1, 0, 5), (0, 1, 5), (0, 0, 5))"
    by (simp add: exact_kernel_simps)
  have accept_a: "ray_triangle_intersect exact_kernel (1 / 4, 1 / 4, 0) (0, 0, 1) 100
                    (1, 0, 5) (0, 1, 5) (0, 0, 5) = Some (1 / 4, 1 / 4, 5)"
    by (simp add: exact_kernel_simps)
  have verts_b: "motion_triangle_vertices exact_kernel stack 0 3 0 =
                   ((1, 0, 3), (0, 1, 3), (0, 0, 3))"
    by (simp add: exact_kernel_simps)
  have accept_b: "ray_triangle_intersect exact_kernel (1 / 4, 1 / 4, 0) (0, 0, 1) 100
                    (1, 0, 3) (0, 1, 3) (0, 0, 3) = Some (1 / 4, 1 / 4, 3)"
    by (simp add: exact_kernel_simps)
  have verts_c: "motion_triangle_vertices exact_kernel stack 0 7 0 =
                   ((1, 0, 7), (0, 1, 7), (0, 0, 7))"
    by (simp add: exact_kernel_simps)
  have accept_c: "ray_triangle_intersect exact_kernel (1 / 4, 1 / 4, 0) (0, 0, 1) 100
                    (1, 0, 7) (0, 1, 7) (0, 0, 7) = Some (1 / 4, 1 / 4, 7)"
    by (simp add: exact_kernel_simps)
  have pos: "0 < sint (1 :: cint)" by simp
  have slot_hits: "hits ?li \<noteq> []" by simp
  have slot_Ng: "Ng ?li \<noteq> []" by simp
  have order: "\<not> float_gt exact_kernel 3 5" "float_gt exact_kernel 7 3"
    by (simp_all add: exact_kernel_def)
  have normal: "geometric_normal exact_kernel (1, 0, 3) (0, 1, 3) (0, 0, 3) = (0, 0, 1)"
    by (simp add: exact_kernel_simps)
  note step = closest_only_keeps_nearest [OF verts_a accept_a verts_b accept_b verts_c accept_c
                pos slot_hits slot_Ng, of 5 3 7, THEN conjunct2]
  show ?thesis
    using verts_a accept_a verts_b accept_b verts_c accept_c order step
    by (simp add: normal)
qed

text \<open>
  C3, counterexample. The claim as written fails at equal distances: the buffer holds primitive 3 at distance
  3, and primitive 2, which the ray meets at distance 3 at time 1, is offered. The claim
  has the candidate rejected; the code overwrites slot 0 with primitive 2.
\<close>

theorem closest_only_equal_distance_counterexample:
  "motion_triangle_vertices exact_kernel stack 0 2 1 = ((1, 0, 3), (0, 1, 3), (0, 0, 3)) \<and>
   ray_triangle_intersect exact_kernel (1 / 4, 1 / 4, 0) (0, 0, 1) 100
     (1, 0, 3) (0, 1, 3) (0, 0, 3) = Some (1 / 4, 1 / 4, 3) \<and>
   hit_t (hits \<lparr>num_hits = 1, hits = [motion_hit exact_kernel 3 (1 / 4) (1 / 4) 3 0],
                 Ng = [(0, 0, 1)]\<rparr> ! 0) \<le> (3 :: real) \<and>
   motion_triangle_intersect_local exact_kernel stack
     \<lparr>num_hits = 1, hits = [motion_hit exact_kernel 3 (1 / 4) (1 / 4) 3 0], Ng = [(0, 0, 1)]\<rparr>
     (1 / 4, 1 / 4, 0) (0, 0, 1) 1 0 2 2 100 None 1 =
   Inr (False,
        \<lparr>num_hits = 1, hits = [motion_hit exact_kernel 3 (1 / 4) (1 / 4) 2 0], Ng = [(0, 0, 1)]\<rparr>,
        None) \<and>
   motion_triangle_intersect_local exact_kernel stack
     \<lparr>num_hits = 1, hits = [motion_hit exact_kernel 3 (1 / 4) (1 / 4) 3 0], Ng = [(0, 0, 1)]\<rparr>
     (1 / 4, 1 / 4, 0) (0, 0, 1) 1 0 2 2 100 None 1 \<noteq>
   Inr (False,
        \<lparr>num_hits = 1, hits = [motion_hit exact_kernel 3 (1 / 4) (1 / 4) 3 0], Ng = [(0, 0, 1)]\<rparr>,
        None)"
  by (simp add: motion_triangle_intersect_local_def record_intersection_def exact_kernel_simps)


text \<open>
  C2 (as amended). \<open>max_hits = 2\<close>, every draw of the random stream is 0, and four accepted
  candidates are offered to an empty buffer, none with the distance of a record stored
  when it is offered. Candidates 0 and 1 fill slots 0 and 1; candidate 2 draws \<open>0 mod 3 = 0\<close>
  and replaces slot 0; candidate 3 draws \<open>0 mod 4 = 0\<close> and replaces slot 0 again. After the
  fourth call the count is 4, slot 0 holds candidate 3 and slot 1 holds candidate 1.
\<close>

theorem reservoir_zero_draws_four_candidates:
  assumes verts_0: "motion_triangle_vertices K kg object prim_0 time = (a0, a1, a2)"
      and accept_0: "ray_triangle_intersect K P dir tmax a0 a1 a2 = Some (u0, v0, t0)"
      and verts_1: "motion_triangle_vertices K kg object prim_1 time = (b0, b1, b2)"
      and accept_1: "ray_triangle_intersect K P dir tmax b0 b1 b2 = Some (u1, v1, t1)"
      and verts_2: "motion_triangle_vertices K kg object prim_2 time = (c0, c1, c2)"
      and accept_2: "ray_triangle_intersect K P dir tmax c0 c1 c2 = Some (u2, v2, t2)"
      and verts_3: "motion_triangle_vertices K kg object prim_3 time = (d0, d1, d2)"
      and accept_3: "ray_triangle_intersect K P dir tmax d0 d1 d2 = Some (u3, v3, t3)"
      and zero: "\<forall>s. fst (lcg_step_uint K s) = 0"
      and empty: "num_hits li = 0"
      and cap_hits: "2 \<le> length (hits li)"
      and cap_Ng: "2 \<le> length (Ng li)"
      and distinct: "\<not> float_eq K t0 t1" "\<not> float_eq K t0 t2" "\<not> float_eq K t1 t2"
                    "\<not> float_eq K t1 t3" "\<not> float_eq K t2 t3"
  shows "\<exists>li1 li2 li3 li4 s3 s4.
           motion_triangle_intersect_local K kg li P dir time object prim_0 addr_0 tmax
             (Some s) 2 = Inr (False, li1, Some s)
         \<and> motion_triangle_intersect_local K kg li1 P dir time object prim_1 addr_1 tmax
             (Some s) 2 = Inr (False, li2, Some s)
         \<and> motion_triangle_intersect_local K kg li2 P dir time object prim_2 addr_2 tmax
             (Some s) 2 = Inr (False, li3, Some s3)
         \<and> motion_triangle_intersect_local K kg li3 P dir time object prim_3 addr_3 tmax
             (Some s3) 2 = Inr (False, li4, Some s4)
         \<and> num_hits li4 = 4
         \<and> hits li4 = (hits li)[0 := motion_hit K t3 u3 v3 prim_3 object,
                                 1 := motion_hit K t1 u1 v1 prim_1 object]
         \<and> Ng li4 = (Ng li)[0 := geometric_normal K d0 d1 d2, 1 := geometric_normal K b0 b1 b2]"
proof -
  let ?h0 = "motion_hit K t0 u0 v0 prim_0 object"
  let ?h1 = "motion_hit K t1 u1 v1 prim_1 object"
  let ?h2 = "motion_hit K t2 u2 v2 prim_2 object"
  let ?h3 = "motion_hit K t3 u3 v3 prim_3 object"
  let ?n0 = "geometric_normal K a0 a1 a2"
  let ?n1 = "geometric_normal K b0 b1 b2"
  let ?n2 = "geometric_normal K c0 c1 c2"
  let ?n3 = "geometric_normal K d0 d1 d2"
  let ?li1 = "li\<lparr>num_hits := 1, hits := (hits li)[0 := ?h0], Ng := (Ng li)[0 := ?n0]\<rparr>"
  let ?li2 = "li\<lparr>num_hits := 2, hits := (hits li)[0 := ?h0, 1 := ?h1],
                 Ng := (Ng li)[0 := ?n0, 1 := ?n1]\<rparr>"
  let ?li3 = "li\<lparr>num_hits := 3, hits := (hits li)[0 := ?h2, 1 := ?h1],
                 Ng := (Ng li)[0 := ?n2, 1 := ?n1]\<rparr>"
  let ?li4 = "li\<lparr>num_hits := 4, hits := (hits li)[0 := ?h3, 1 := ?h1],
                 Ng := (Ng li)[0 := ?n3, 1 := ?n1]\<rparr>"
  let ?s3 = "snd (lcg_step_uint K s)"
  let ?s4 = "snd (lcg_step_uint K ?s3)"
  have pos: "0 < sint (2 :: cint)" by simp
  have two: "\<And>Q. (\<forall>i<2::nat. Q i) \<longleftrightarrow> Q 0 \<and> Q 1"
    by (auto simp: less_Suc_eq numeral_2_eq_2)
  have lens: "0 < length (hits li)" "Suc 0 < length (hits li)"
             "0 < length (Ng li)" "Suc 0 < length (Ng li)"
    using cap_hits cap_Ng by auto
  have first: "motion_triangle_intersect_local K kg li P dir time object prim_0 addr_0 tmax
                 (Some s) 2 = Inr (False, ?li1, Some s)"
    using cap_hits cap_Ng
    by (subst local_reservoir_no_duplicate [OF verts_0 accept_0 pos])
       (simp_all add: empty)
  have second: "motion_triangle_intersect_local K kg ?li1 P dir time object prim_1 addr_1 tmax
                  (Some s) 2 = Inr (False, ?li2, Some s)"
    using cap_hits cap_Ng distinct lens
    by (subst local_reservoir_no_duplicate [OF verts_1 accept_1 pos])
       (simp_all add: nth_list_update)
  have third: "motion_triangle_intersect_local K kg ?li2 P dir time object prim_2 addr_2 tmax
                 (Some s) 2 = Inr (False, ?li3, Some ?s3)"
    using cap_hits cap_Ng distinct lens
    by (subst local_reservoir_no_duplicate [OF verts_2 accept_2 pos])
       (simp_all add: nth_list_update two zero list_update_0_1_0)
  have fourth: "motion_triangle_intersect_local K kg ?li3 P dir time object prim_3 addr_3 tmax
                  (Some ?s3) 2 = Inr (False, ?li4, Some ?s4)"
    using cap_hits cap_Ng distinct lens
    by (subst local_reservoir_no_duplicate [OF verts_3 accept_3 pos])
       (simp_all add: nth_list_update two zero list_update_0_1_0)
  show ?thesis
    apply (rule exI [of _ ?li1])
    apply (rule exI [of _ ?li2])
    apply (rule exI [of _ ?li3])
    apply (rule exI [of _ ?li4])
    apply (rule exI [of _ ?s3])
    apply (rule exI [of _ ?s4])
    using first second third fourth by simp
qed

theorem reservoir_zero_draws_four_candidates_witness:
  "motion_triangle_vertices zero_draw_kernel stack 0 1 0 = ((1, 0, 1), (0, 1, 1), (0, 0, 1)) \<and>
   ray_triangle_intersect zero_draw_kernel (1 / 4, 1 / 4, 0) (0, 0, 1) 100
     (1, 0, 1) (0, 1, 1) (0, 0, 1) = Some (1 / 4, 1 / 4, 1) \<and>
   motion_triangle_vertices zero_draw_kernel stack 0 2 0 = ((1, 0, 2), (0, 1, 2), (0, 0, 2)) \<and>
   ray_triangle_intersect zero_draw_kernel (1 / 4, 1 / 4, 0) (0, 0, 1) 100
     (1, 0, 2) (0, 1, 2) (0, 0, 2) = Some (1 / 4, 1 / 4, 2) \<and>
   motion_triangle_vertices zero_draw_kernel stack 0 3 0 = ((1, 0, 3), (0, 1, 3), (0, 0, 3)) \<and>
   ray_triangle_intersect zero_draw_kernel (1 / 4, 1 / 4, 0) (0, 0, 1) 100
     (1, 0, 3) (0, 1, 3) (0, 0, 3) = Some (1 / 4, 1 / 4, 3) \<and>
   motion_triangle_vertices zero_draw_kernel stack 0 4 0 = ((1, 0, 4), (0, 1, 4), (0, 0, 4)) \<and>
   ray_triangle_intersect zero_draw_kernel (1 / 4, 1 / 4, 0) (0, 0, 1) 100
     (1, 0, 4) (0, 1, 4) (0, 0, 4) = Some (1 / 4, 1 / 4, 4) \<and>
   (\<forall>s. fst (lcg_step_uint zero_draw_kernel s) = 0) \<and>
   (\<exists>li1 li2 li3 li4 s3 s4.
      motion_triangle_intersect_local zero_draw_kernel stack
        \<lparr>num_hits = 0,
         hits = [motion_hit zero_draw_kernel 0 0 0 0 0, motion_hit zero_draw_kernel 0 0 0 0 0],
         Ng = [(0, 0, 0), (0, 0, 0)]\<rparr>
        (1 / 4, 1 / 4, 0) (0, 0, 1) 0 0 1 1 100 (Some 0) 2 = Inr (False, li1, Some 0)
    \<and> motion_triangle_intersect_local zero_draw_kernel stack li1
        (1 / 4, 1 / 4, 0) (0, 0, 1) 0 0 2 2 100 (Some 0) 2 = Inr (False, li2, Some 0)
    \<and> motion_triangle_intersect_local zero_draw_kernel stack li2
        (1 / 4, 1 / 4, 0) (0, 0, 1) 0 0 3 3 100 (Some 0) 2 = Inr (False, li3, Some s3)
    \<and> motion_triangle_intersect_local zero_draw_kernel stack li3
        (1 / 4, 1 / 4, 0) (0, 0, 1) 0 0 4 4 100 (Some s3) 2 = Inr (False, li4, Some s4)
    \<and> num_hits li4 = 4
    \<and> hits li4 = [motion_hit zero_draw_kernel 4 (1 / 4) (1 / 4) 4 0,
                   motion_hit zero_draw_kernel 2 (1 / 4) (1 / 4) 2 0]
    \<and> Ng li4 = [(0, 0, 1), (0, 0, 1)])"
proof -
  let ?li = "\<lparr>num_hits = 0 :: cint,
         hits = [motion_hit zero_draw_kernel 0 0 0 0 0, motion_hit zero_draw_kernel 0 0 0 0 0],
         Ng = [(0, 0, 0), (0, 0, 0 :: real)]\<rparr>"
  note ev = zero_draw_kernel_fields stack_def scene_vertices_def real3_mix_def
    real_ray_triangle_intersect_def real3_normalize_def real3_len_def Let_def
  have verts_0: "motion_triangle_vertices zero_draw_kernel stack 0 1 0 =
                   ((1, 0, 1), (0, 1, 1), (0, 0, 1))"
    by (simp add: ev)
  have accept_0: "ray_triangle_intersect zero_draw_kernel (1 / 4, 1 / 4, 0) (0, 0, 1) 100
                    (1, 0, 1) (0, 1, 1) (0, 0, 1) = Some (1 / 4, 1 / 4, 1)"
    by (simp add: ev)
  have verts_1: "motion_triangle_vertices zero_draw_kernel stack 0 2 0 =
                   ((1, 0, 2), (0, 1, 2), (0, 0, 2))"
    by (simp add: ev)
  have accept_1: "ray_triangle_intersect zero_draw_kernel (1 / 4, 1 / 4, 0) (0, 0, 1) 100
                    (1, 0, 2) (0, 1, 2) (0, 0, 2) = Some (1 / 4, 1 / 4, 2)"
    by (simp add: ev)
  have verts_2: "motion_triangle_vertices zero_draw_kernel stack 0 3 0 =
                   ((1, 0, 3), (0, 1, 3), (0, 0, 3))"
    by (simp add: ev)
  have accept_2: "ray_triangle_intersect zero_draw_kernel (1 / 4, 1 / 4, 0) (0, 0, 1) 100
                    (1, 0, 3) (0, 1, 3) (0, 0, 3) = Some (1 / 4, 1 / 4, 3)"
    by (simp add: ev)
  have verts_3: "motion_triangle_vertices zero_draw_kernel stack 0 4 0 =
                   ((1, 0, 4), (0, 1, 4), (0, 0, 4))"
    by (simp add: ev)
  have accept_3: "ray_triangle_intersect zero_draw_kernel (1 / 4, 1 / 4, 0) (0, 0, 1) 100
                    (1, 0, 4) (0, 1, 4) (0, 0, 4) = Some (1 / 4, 1 / 4, 4)"
    by (simp add: ev)
  have zero: "\<forall>s. fst (lcg_step_uint zero_draw_kernel s) = 0" by (simp add: ev)
  have empty: "num_hits ?li = 0" by simp
  have cap_hits: "2 \<le> length (hits ?li)" by simp
  have cap_Ng: "2 \<le> length (Ng ?li)" by simp
  have distinct: "\<not> float_eq zero_draw_kernel 1 2" "\<not> float_eq zero_draw_kernel 1 3"
    "\<not> float_eq zero_draw_kernel 2 3" "\<not> float_eq zero_draw_kernel 2 4"
    "\<not> float_eq zero_draw_kernel 3 4"
    by (simp_all add: ev)
  have normals: "geometric_normal zero_draw_kernel (1, 0, 4) (0, 1, 4) (0, 0, 4) = (0, 0, 1)"
    "geometric_normal zero_draw_kernel (1, 0, 2) (0, 1, 2) (0, 0, 2) = (0, 0, 1)"
    by (simp_all add: ev)
  note run = reservoir_zero_draws_four_candidates [OF verts_0 accept_0 verts_1 accept_1
               verts_2 accept_2 verts_3 accept_3 zero empty cap_hits cap_Ng distinct,
               of 1 0 2 3 4]
  show ?thesis
    using verts_0 accept_0 verts_1 accept_1 verts_2 accept_2 verts_3 accept_3 zero run
    by (simp add: normals)
qed

text \<open>
  C2, counterexample. The claim as written fails: it leaves candidate 0 in slot 0 and candidate 3 in slot 1.
  Four triangles at distances 1, 2, 3, 4, state by state.
\<close>

theorem reservoir_zero_draws_counterexample:
  "motion_triangle_intersect_local zero_draw_kernel stack
     \<lparr>num_hits = 0,
      hits = [motion_hit zero_draw_kernel 0 0 0 0 0, motion_hit zero_draw_kernel 0 0 0 0 0],
      Ng = [(0, 0, 0), (0, 0, 0)]\<rparr>
     (1 / 4, 1 / 4, 0) (0, 0, 1) 0 0 1 1 100 (Some 0) 2 =
   Inr (False,
        \<lparr>num_hits = 1,
         hits = [motion_hit zero_draw_kernel 1 (1 / 4) (1 / 4) 1 0,
                 motion_hit zero_draw_kernel 0 0 0 0 0],
         Ng = [(0, 0, 1), (0, 0, 0)]\<rparr>,
        Some 0) \<and>
   motion_triangle_intersect_local zero_draw_kernel stack
     \<lparr>num_hits = 1,
      hits = [motion_hit zero_draw_kernel 1 (1 / 4) (1 / 4) 1 0,
              motion_hit zero_draw_kernel 0 0 0 0 0],
      Ng = [(0, 0, 1), (0, 0, 0)]\<rparr>
     (1 / 4, 1 / 4, 0) (0, 0, 1) 0 0 2 2 100 (Some 0) 2 =
   Inr (False,
        \<lparr>num_hits = 2,
         hits = [motion_hit zero_draw_kernel 1 (1 / 4) (1 / 4) 1 0,
                 motion_hit zero_draw_kernel 2 (1 / 4) (1 / 4) 2 0],
         Ng = [(0, 0, 1), (0, 0, 1)]\<rparr>,
        Some 0) \<and>
   motion_triangle_intersect_local zero_draw_kernel stack
     \<lparr>num_hits = 2,
      hits = [motion_hit zero_draw_kernel 1 (1 / 4) (1 / 4) 1 0,
              motion_hit zero_draw_kernel 2 (1 / 4) (1 / 4) 2 0],
      Ng = [(0, 0, 1), (0, 0, 1)]\<rparr>
     (1 / 4, 1 / 4, 0) (0, 0, 1) 0 0 3 3 100 (Some 0) 2 =
   Inr (False,
        \<lparr>num_hits = 3,
         hits = [motion_hit zero_draw_kernel 3 (1 / 4) (1 / 4) 3 0,
                 motion_hit zero_draw_kernel 2 (1 / 4) (1 / 4) 2 0],
         Ng = [(0, 0, 1), (0, 0, 1)]\<rparr>,
        Some 1) \<and>
   motion_triangle_intersect_local zero_draw_kernel stack
     \<lparr>num_hits = 3,
      hits = [motion_hit zero_draw_kernel 3 (1 / 4) (1 / 4) 3 0,
              motion_hit zero_draw_kernel 2 (1 / 4) (1 / 4) 2 0],
      Ng = [(0, 0, 1), (0, 0, 1)]\<rparr>
     (1 / 4, 1 / 4, 0) (0, 0, 1) 0 0 4 4 100 (Some 1) 2 =
   Inr (False,
        \<lparr>num_hits = 4,
         hits = [motion_hit zero_draw_kernel 4 (1 / 4) (1 / 4) 4 0,
                 motion_hit zero_draw_kernel 2 (1 / 4) (1 / 4) 2 0],
         Ng = [(0, 0, 1), (0, 0, 1)]\<rparr>,
        Some 2) \<and>
   [motion_hit zero_draw_kernel 4 (1 / 4) (1 / 4) 4 0,
    motion_hit zero_draw_kernel 2 (1 / 4) (1 / 4) 2 0] \<noteq>
   [motion_hit zero_draw_kernel 1 (1 / 4) (1 / 4) 1 0,
    motion_hit zero_draw_kernel 4 (1 / 4) (1 / 4) 4 0]"
  by (simp add: motion_triangle_intersect_local_def record_intersection_def min_int_def
        zero_draw_kernel_fields stack_def scene_vertices_def real3_mix_def
        real_ray_triangle_intersect_def real3_normalize_def real3_len_def Let_def
        duplicate_scan_numeral)


end
